theory Spec2Isabelle
  imports Main "HOL-Library.AList" "HOL-Library.Sublist"
begin

section \<open>Values, exceptions and the operator object\<close>

text \<open>
  The development follows \<^verbatim>\<open>airflow/operators/python_operator.py\<close>, class
  \<^verbatim>\<open>PythonVirtualenvOperator\<close> and the part of \<^verbatim>\<open>PythonOperator\<close> it inherits.
  Strings, file paths and file contents are lists of 8-bit characters; the host is POSIX,
  so text written with \<^verbatim>\<open>'\n'\<close> reaches the file unchanged.
\<close>

type_synonym path = string
type_synonym bytes = string

definition NL :: char where
  "NL = CHR 0x0A"

definition CR :: char where
  "CR = CHR 0x0D"

text \<open>Python values that travel as arguments and results.\<close>

datatype pyval =
    PyNone
  | PyBool bool
  | PyInt int
  | PyStr string
  | PyList "pyval list"
  | PyDict "(pyval \<times> pyval) list"

text \<open>
  Exceptions are values. \<open>AirflowException\<close> carries the argument tuple it was raised
  with; \<open>CalledProcessError\<close> carries the return code and the captured output.
  \<open>UnicodeDecodeError\<close> is a subclass of \<open>ValueError\<close> in Python, which
  \<open>is_ValueError\<close> records for the \<^verbatim>\<open>except ValueError\<close> clause.
  \<open>SystemExit\<close> is what \<^verbatim>\<open>sys.exit(n)\<close> raises; it carries the exit status.
\<close>

datatype exn =
    AirflowException "string list"
  | ValueError string
  | UnicodeDecodeError
  | IndexError
  | KeyError string
  | TypeError
  | ImportError string
  | FileNotFoundError path
  | CalledProcessError int bytes
  | OSError string
  | PicklingError
  | UnpicklingError
  | EOFError
  | UserError string
  | SystemExit int

fun is_ValueError :: "exn \<Rightarrow> bool" where
  "is_ValueError (ValueError _) = True"
| "is_ValueError UnicodeDecodeError = True"
| "is_ValueError _ = False"

text \<open>
  What is handed over as \<^verbatim>\<open>python_callable\<close>. A \<open>Function\<close> is an instance of
  \<^verbatim>\<open>types.FunctionType\<close>: it has a \<^verbatim>\<open>__name__\<close>, the text
  \<^verbatim>\<open>dedent(inspect.getsource(fn))\<close>, and a behaviour: from the positional arguments,
  the keyword arguments and the global \<^verbatim>\<open>virtualenv_string_args\<close> to a result or an
  exception. \<open>CallableObject\<close> is any other object that \<^verbatim>\<open>callable()\<close> accepts
  (a bound method, a class, an instance with \<^verbatim>\<open>__call__\<close>), \<open>NotCallable\<close> anything
  else.
\<close>

datatype py_object =
    Function (fn_name: string) (fn_source: string)
      (fn_body: "pyval list \<Rightarrow> (string \<times> pyval) list \<Rightarrow> string list \<Rightarrow> exn + pyval")
  | CallableObject
  | NotCallable

fun callable :: "py_object \<Rightarrow> bool" where
  "callable NotCallable = False"
| "callable _ = True"

fun isinstance_FunctionType :: "py_object \<Rightarrow> bool" where
  "isinstance_FunctionType (Function _ _ _) = True"
| "isinstance_FunctionType _ = False"

text \<open>\<^verbatim>\<open>(lambda x: 0).__name__\<close>\<close>

definition lambda_name :: string where
  "lambda_name = ''<lambda>''"

text \<open>
  The attributes of the operator. \<open>op_kwargs\<close> is a dict with string keys, kept as an
  association list with distinct keys; \<open>templates_dict\<close> is \<open>None\<close> or a dict;
  \<open>python_version\<close> holds \<^verbatim>\<open>str(python_version)\<close> when a version is given.
\<close>

record operator =
  python_callable :: py_object
  op_args :: "pyval list"
  op_kwargs :: "(string \<times> pyval) list"
  provide_context :: bool
  templates_dict :: "(pyval \<times> pyval) list option"
  template_ext :: "string list"
  requirements :: "string list"
  string_args :: "string list"
  python_version :: "string option"
  use_dill :: bool
  system_site_packages :: bool

text \<open>The keyword arguments of \<^verbatim>\<open>PythonVirtualenvOperator.__init__\<close>, with their defaults
  \<open>None\<close> as \<open>None\<close>.\<close>

record init_args =
  arg_python_callable :: py_object
  arg_requirements :: "string list option"
  arg_python_version :: "string option"
  arg_use_dill :: bool
  arg_system_site_packages :: bool
  arg_op_args :: "pyval list option"
  arg_op_kwargs :: "(string \<times> pyval) list option"
  arg_string_args :: "string list option"
  arg_templates_dict :: "(pyval \<times> pyval) list option"
  arg_templates_exts :: "string list option"

text \<open>\<^verbatim>\<open>x or []\<close> for a list or dict \<open>x\<close> that may be \<open>None\<close>.\<close>

fun or_empty :: "'a list option \<Rightarrow> 'a list" where
  "or_empty None = []"
| "or_empty (Some xs) = xs"

section \<open>Small pieces of the Python library\<close>

text \<open>\<^verbatim>\<open>str(n)\<close> for a natural number: its decimal digits.\<close>

definition digit_char :: "nat \<Rightarrow> char" where
  "digit_char d = char_of (48 + d)"

function str_nat :: "nat \<Rightarrow> string" where
  "str_nat n = (if n < 10 then [digit_char n] else str_nat (n div 10) @ [digit_char (n mod 10)])"
  by pat_completeness auto
termination
  by (relation "measure id") auto

declare str_nat.simps [simp del]

text \<open>\<^verbatim>\<open>str.lower\<close> on the letters A to Z, and \<^verbatim>\<open>str.startswith\<close>.\<close>

definition lower_char :: "char \<Rightarrow> char" where
  "lower_char c = (let n = (of_char c :: nat) in if 65 \<le> n \<and> n \<le> 90 then char_of (n + 32) else c)"

definition lower :: "string \<Rightarrow> string" where
  "lower s = map lower_char s"

definition startswith :: "string \<Rightarrow> string \<Rightarrow> bool" where
  "startswith s p = (take (length p) s = p)"

text \<open>\<^verbatim>\<open>any\<close> over a sequence of truth values.\<close>

fun any_py :: "bool list \<Rightarrow> bool" where
  "any_py [] = False"
| "any_py (b # bs) = (b \<or> any_py bs)"

section \<open>Construction\<close>

definition not_callable_msg :: "string list" where
  "not_callable_msg = [''`python_callable` param must be callable'']"

definition dill_msg :: "string list" where
  "dill_msg = [''If using dill, dill must be in the environment '' @
               ''either via system_site_packages or requirements'']"

definition not_function_msg :: "string list" where
  "not_function_msg = [''{} only supports functions for python_callable arg'',
                       ''PythonVirtualenvOperator'']"

definition cross_version_msg :: "string list" where
  "cross_version_msg = [''Passing op_args or op_kwargs is not supported across '' @
                        ''different Python major versions '' @
                        ''for PythonVirtualenvOperator. '' @
                        ''Please use string_args.'']"

text \<open>
  \<^verbatim>\<open>PythonOperator.__init__\<close> after the call of the base class constructor, which is
  outside this file. The result is the object with the attributes of the subclass still
  unset (they are given their values by \<open>PythonVirtualenvOperator_init\<close>).
\<close>

definition PythonOperator_init ::
  "py_object \<Rightarrow> pyval list option \<Rightarrow> (string \<times> pyval) list option \<Rightarrow> bool \<Rightarrow>
   (pyval \<times> pyval) list option \<Rightarrow> string list option \<Rightarrow> exn + operator" where
  "PythonOperator_init python_callable' op_args' op_kwargs' provide_context'
       templates_dict' templates_exts' =
     (if \<not> callable python_callable' then Inl (AirflowException not_callable_msg)
      else Inr \<lparr> python_callable = python_callable',
                 op_args = or_empty op_args',
                 op_kwargs = or_empty op_kwargs',
                 provide_context = provide_context',
                 templates_dict = templates_dict',
                 template_ext = or_empty templates_exts',
                 requirements = [],
                 string_args = [],
                 python_version = None,
                 use_dill = False,
                 system_site_packages = True \<rparr>)"

text \<open>\<^verbatim>\<open>_pass_op_args\<close>: arguments are passed only when some are given.\<close>

definition pass_op_args :: "operator \<Rightarrow> bool" where
  "pass_op_args self = (length (op_args self) + length (op_kwargs self) > 0)"

text \<open>
  \<^verbatim>\<open>PythonVirtualenvOperator.__init__\<close>. \<open>major\<close> is \<^verbatim>\<open>sys.version_info[0]\<close> of the
  interpreter that constructs the operator. Indexing the empty string raises
  \<open>IndexError\<close>; \<^verbatim>\<open>and\<close> evaluates its operands from the left and stops at the first
  false one.
\<close>

definition PythonVirtualenvOperator_init :: "nat \<Rightarrow> init_args \<Rightarrow> exn + operator" where
  "PythonVirtualenvOperator_init major a =
     (case PythonOperator_init (arg_python_callable a) (arg_op_args a) (arg_op_kwargs a)
             False (arg_templates_dict a) (arg_templates_exts a) of
        Inl e \<Rightarrow> Inl e
      | Inr base \<Rightarrow>
          let self = base \<lparr> requirements := or_empty (arg_requirements a),
                            string_args := or_empty (arg_string_args a),
                            python_version := arg_python_version a,
                            use_dill := arg_use_dill a,
                            system_site_packages := arg_system_site_packages a \<rparr>;
              dill_in_requirements = map (\<lambda>x. startswith (lower x) ''dill'') (requirements self)
          in
          if (\<not> arg_system_site_packages a) \<and> arg_use_dill a \<and> \<not> any_py dill_in_requirements
          then Inl (AirflowException dill_msg)
          else if \<not> isinstance_FunctionType (python_callable self)
                  \<or> fn_name (python_callable self) = lambda_name
          then Inl (AirflowException not_function_msg)
          else (case arg_python_version a of
                  None \<Rightarrow> Inr self
                | Some v \<Rightarrow>
                    (case v of
                       [] \<Rightarrow> Inl IndexError
                     | c # _ \<Rightarrow>
                         if [c] \<noteq> str_nat major \<and> pass_op_args self
                         then Inl (AirflowException cross_version_msg)
                         else Inr self)))"

section \<open>Files, subprocesses and the pickling libraries\<close>

text \<open>
  \<^verbatim>\<open>pickle\<close> and \<^verbatim>\<open>dill\<close> are libraries outside the repository, so a codec is a
  parameter: \<open>dump\<close> gives the bytes that reach the file and the exception raised, if any;
  \<open>load\<close> gives the value read or the exception raised.
\<close>

record codec =
  dump :: "pyval \<Rightarrow> bytes \<times> exn option"
  load :: "bytes \<Rightarrow> exn + pyval"

text \<open>
  The machine the operator runs on: the two codecs of its interpreter, the directory
  that \<^verbatim>\<open>TemporaryDirectory\<close> creates, and \<^verbatim>\<open>subprocess.check_output\<close>, which maps a
  command and the files to the captured output or the exception it raises, and the
  files the command leaves behind.
\<close>

record host =
  host_pickle :: codec
  host_dill :: codec
  tmp_name :: path
  check_output :: "string list \<Rightarrow> (path \<rightharpoonup> bytes) \<Rightarrow> (exn + bytes) \<times> (path \<rightharpoonup> bytes)"

text \<open>
  The interpreter of the virtualenv, which runs the generated script: its
  \<^verbatim>\<open>pickle\<close>, its \<^verbatim>\<open>dill\<close> if installed there, and whether it is a Python 3 (or else
  a Python 2).
\<close>

record interpreter =
  venv_pickle :: codec
  venv_dill :: "codec option"
  python3 :: bool

text \<open>What the logger receives, one constructor for each message of the source.\<close>

datatype log_entry =
    Info_Executing_cmd "string list"
  | Info_Got_output bytes
  | Info_Got_error_output bytes
  | Debug_Writing_code string
  | Error_deserializing_result

text \<open>The actions on the outside world, in the order they happen.\<close>

datatype event =
    Mkdtemp path
  | Subprocess "string list"
  | OpenWrite path
  | OpenRead path
  | Stat path
  | Rmtree path

record world =
  files :: "path \<rightharpoonup> bytes"
  log :: "log_entry list"
  trace :: "event list"

definition emit :: "event \<Rightarrow> world \<Rightarrow> world" where
  "emit ev w = w \<lparr> trace := trace w @ [ev] \<rparr>"

definition logging :: "log_entry \<Rightarrow> world \<Rightarrow> world" where
  "logging l w = w \<lparr> log := log w @ [l] \<rparr>"

text \<open>\<^verbatim>\<open>open(filename, 'w')\<close> or \<^verbatim>\<open>'wb'\<close>: the file exists afterwards and is empty.\<close>

definition open_write :: "path \<Rightarrow> world \<Rightarrow> world" where
  "open_write p w = emit (OpenWrite p) (w \<lparr> files := (files w)(p \<mapsto> []) \<rparr>)"

definition write_bytes :: "path \<Rightarrow> bytes \<Rightarrow> world \<Rightarrow> world" where
  "write_bytes p bs w = w \<lparr> files := (files w)(p \<mapsto> bs) \<rparr>"

text \<open>Sequencing of steps that may raise: the first exception ends the sequence.\<close>

definition seq ::
  "(world \<Rightarrow> (exn + 'a) \<times> world) \<Rightarrow> ('a \<Rightarrow> world \<Rightarrow> (exn + 'b) \<times> world) \<Rightarrow>
   world \<Rightarrow> (exn + 'b) \<times> world" where
  "seq m k w = (case m w of (Inl e, w') \<Rightarrow> (Inl e, w') | (Inr x, w') \<Rightarrow> k x w')"

text \<open>\<^verbatim>\<open>sep.join(xs)\<close>\<close>

fun join :: "string \<Rightarrow> string list \<Rightarrow> string" where
  "join sep [] = []"
| "join sep [x] = x"
| "join sep (x # y # ys) = x @ sep @ join sep (y # ys)"

text \<open>\<^verbatim>\<open>os.path.join(d, name)\<close> for a directory name that does not end with a slash and a
  relative name.\<close>

definition path_join :: "path \<Rightarrow> string \<Rightarrow> path" where
  "path_join d name = d @ ''/'' @ name"

section \<open>The methods of the operator\<close>

text \<open>\<^verbatim>\<open>_execute_in_subprocess\<close>\<close>

definition execute_in_subprocess :: "host \<Rightarrow> string list \<Rightarrow> world \<Rightarrow> (exn + unit) \<times> world" where
  "execute_in_subprocess h cmd w =
     (let w1 = emit (Subprocess cmd) (logging (Info_Executing_cmd cmd) w) in
      case check_output h cmd (files w1) of
        (Inr output, fs) \<Rightarrow>
          (Inr (), (if output \<noteq> [] then logging (Info_Got_output output) else id)
                     (w1 \<lparr> files := fs \<rparr>))
      | (Inl e, fs) \<Rightarrow>
          (case e of
             CalledProcessError rc out \<Rightarrow>
               (Inl e, logging (Info_Got_error_output out) (w1 \<lparr> files := fs \<rparr>))
           | _ \<Rightarrow> (Inl e, w1 \<lparr> files := fs \<rparr>)))"

text \<open>\<^verbatim>\<open>_write_string_args\<close>\<close>

definition write_string_args :: "operator \<Rightarrow> path \<Rightarrow> world \<Rightarrow> world" where
  "write_string_args self filename w =
     write_bytes filename (join [NL] (string_args self)) (open_write filename w)"

text \<open>The dict \<^verbatim>\<open>{'args': self.op_args, 'kwargs': self.op_kwargs}\<close>.\<close>

definition arg_dict_of :: "operator \<Rightarrow> pyval" where
  "arg_dict_of self =
     PyDict [(PyStr ''args'', PyList (op_args self)),
             (PyStr ''kwargs'', PyDict (map (\<lambda>(k, v). (PyStr k, v)) (op_kwargs self)))]"

definition host_codec :: "host \<Rightarrow> operator \<Rightarrow> codec" where
  "host_codec h self = (if use_dill self then host_dill h else host_pickle h)"

text \<open>\<^verbatim>\<open>_write_args\<close>\<close>

definition write_args :: "host \<Rightarrow> operator \<Rightarrow> path \<Rightarrow> world \<Rightarrow> (exn + unit) \<times> world" where
  "write_args h self input_filename w =
     (if pass_op_args self then
        (let w1 = open_write input_filename w;
             arg_dict = arg_dict_of self
         in case dump (host_codec h self) arg_dict of
              (bs, None) \<Rightarrow> (Inr (), write_bytes input_filename bs w1)
            | (bs, Some e) \<Rightarrow> (Inl e, write_bytes input_filename bs w1))
      else (Inr (), w))"

text \<open>\<^verbatim>\<open>_read_result\<close>\<close>

definition read_result :: "host \<Rightarrow> operator \<Rightarrow> path \<Rightarrow> world \<Rightarrow> (exn + pyval) \<times> world" where
  "read_result h self output_filename w =
     (let w1 = emit (Stat output_filename) w in
      case files w output_filename of
        None \<Rightarrow> (Inl (FileNotFoundError output_filename), w1)
      | Some bs \<Rightarrow>
          if length bs = 0 then (Inr PyNone, w1)
          else
            (let w2 = emit (OpenRead output_filename) w1 in
             case load (host_codec h self) bs of
               Inr v \<Rightarrow> (Inr v, w2)
             | Inl e \<Rightarrow>
                 if is_ValueError e then (Inl e, logging Error_deserializing_result w2)
                 else (Inl e, w2)))"

text \<open>\<^verbatim>\<open>_generate_virtualenv_cmd\<close>, \<^verbatim>\<open>_generate_pip_install_cmd\<close> and
  \<^verbatim>\<open>_generate_python_cmd\<close>\<close>

definition generate_virtualenv_cmd :: "operator \<Rightarrow> path \<Rightarrow> string list" where
  "generate_virtualenv_cmd self tmp_dir =
     [''virtualenv'', tmp_dir]
     @ (if system_site_packages self then [''--system-site-packages''] else [])
     @ (case python_version self of None \<Rightarrow> [] | Some v \<Rightarrow> [''--python=python'' @ v])"

definition generate_pip_install_cmd :: "operator \<Rightarrow> path \<Rightarrow> string list" where
  "generate_pip_install_cmd self tmp_dir =
     (if length (requirements self) = 0 then []
      else [tmp_dir @ ''/bin/pip'', ''install''] @ requirements self)"

definition generate_python_cmd :: "operator \<Rightarrow> path \<Rightarrow> path \<Rightarrow> path \<Rightarrow> path \<Rightarrow> path \<Rightarrow> string list" where
  "generate_python_cmd self tmp_dir script_filename input_filename output_filename
       string_args_filename =
     [tmp_dir @ ''/bin/python'', script_filename,
      input_filename, output_filename, string_args_filename]"

text \<open>
  \<^verbatim>\<open>_generate_python_code\<close>. The template is the literal of the source after
  \<^verbatim>\<open>dedent\<close>, which removes its eight columns of indentation and the blanks before
  the closing quotes; \<^verbatim>\<open>format\<close> then fills the four fields. The constructor admits only
  a \<open>Function\<close>; for any other object the model raises \<open>TypeError\<close>, as
  \<^verbatim>\<open>inspect.getsource\<close> does for an object without source text.
\<close>

definition pickling_library :: "operator \<Rightarrow> string" where
  "pickling_library self = (if use_dill self then ''dill'' else ''pickle'')"

definition load_args_line :: "operator \<Rightarrow> string" where
  \<open>load_args_line self =
     (if pass_op_args self
      then ''with open(sys.argv[1], "rb") as f: arg_dict = '' @ pickling_library self @ ''.load(f)''
      else ''arg_dict = {"args": [], "kwargs": {}}'')\<close>

definition generate_python_code :: "operator \<Rightarrow> exn + string" where
  \<open>generate_python_code self =
     (case python_callable self of
        Function name source body \<Rightarrow>
          Inr (''import '' @ pickling_library self @ [NL]
               @ ''import sys'' @ [NL]
               @ load_args_line self @ [NL]
               @ ''args = arg_dict["args"]'' @ [NL]
               @ ''kwargs = arg_dict["kwargs"]'' @ [NL]
               @ ''with open(sys.argv[3], 'r') as f:'' @ [NL]
               @ ''    virtualenv_string_args = list(map(lambda x: x.strip(), list(f)))'' @ [NL]
               @ source @ [NL]
               @ ''res = '' @ name @ ''(*args, **kwargs)'' @ [NL]
               @ ''with open(sys.argv[2], 'wb') as f:'' @ [NL]
               @ ''    res is not None and '' @ pickling_library self @ ''.dump(res, f)'' @ [NL])
      | _ \<Rightarrow> Inl TypeError)\<close>

text \<open>\<^verbatim>\<open>_write_script\<close>: the file is opened before the code is generated.\<close>

definition write_script :: "operator \<Rightarrow> path \<Rightarrow> world \<Rightarrow> (exn + unit) \<times> world" where
  "write_script self script_filename w =
     (let w1 = open_write script_filename w in
      case generate_python_code self of
        Inl e \<Rightarrow> (Inl e, w1)
      | Inr python_code \<Rightarrow>
          (Inr (), write_bytes script_filename python_code
                     (logging (Debug_Writing_code python_code) w1)))"

text \<open>
  Line 265: a templates dict that is neither \<open>None\<close> nor empty is stored in
  \<open>op_kwargs\<close> under the key \<^verbatim>\<open>'templates_dict'\<close>.
\<close>

definition merge_templates_dict :: "operator \<Rightarrow> operator" where
  "merge_templates_dict self =
     (case templates_dict self of
        None \<Rightarrow> self
      | Some td \<Rightarrow>
          if td \<noteq> []
          then self \<lparr> op_kwargs := AList.update ''templates_dict'' (PyDict td) (op_kwargs self) \<rparr>
          else self)"

text \<open>
  Modelled from the spec: \<^verbatim>\<open>airflow.utils.file.TemporaryDirectory\<close> is not among the
  sources. The spec's Scoped Workspace has \<open>acquire() -> path\<close> and a \<open>release()\<close> that
  is guaranteed on every exit path and recursively deletes the directory tree.
\<close>

definition acquire :: "host \<Rightarrow> world \<Rightarrow> path \<times> world" where
  "acquire h w = (tmp_name h, emit (Mkdtemp (tmp_name h)) w)"

definition release :: "path \<Rightarrow> world \<Rightarrow> world" where
  "release d w =
     emit (Rmtree d) (w \<lparr> files := (\<lambda>p. if prefix (d @ ''/'') p then None else files w p) \<rparr>)"

text \<open>The body of the \<^verbatim>\<open>with\<close> statement of \<^verbatim>\<open>execute_callable\<close>, after line 265.\<close>

definition in_workspace :: "host \<Rightarrow> operator \<Rightarrow> path \<Rightarrow> world \<Rightarrow> (exn + pyval) \<times> world" where
  "in_workspace h self tmp_dir =
     (let input_filename = path_join tmp_dir ''script.in'';
          output_filename = path_join tmp_dir ''script.out'';
          string_args_filename = path_join tmp_dir ''string_args.txt'';
          script_filename = path_join tmp_dir ''script.py'';
          cmd = generate_pip_install_cmd self tmp_dir
      in
      seq (execute_in_subprocess h (generate_virtualenv_cmd self tmp_dir)) (\<lambda>_.
      seq (if cmd \<noteq> [] then execute_in_subprocess h cmd else (\<lambda>w. (Inr (), w))) (\<lambda>_.
      seq (write_args h self input_filename) (\<lambda>_.
      seq (write_script self script_filename) (\<lambda>_.
      seq (\<lambda>w. (Inr (), write_string_args self string_args_filename w)) (\<lambda>_.
      seq (execute_in_subprocess h
             (generate_python_cmd self tmp_dir script_filename input_filename
                output_filename string_args_filename)) (\<lambda>_.
      read_result h self output_filename)))))))"

text \<open>
  \<^verbatim>\<open>execute_callable\<close>. The result is the value returned or the exception raised, the
  operator object as the call leaves it, and the world.
\<close>

definition execute_callable ::
  "host \<Rightarrow> operator \<Rightarrow> world \<Rightarrow> (exn + pyval) \<times> operator \<times> world" where
  "execute_callable h self w =
     (case acquire h w of
        (tmp_dir, w0) \<Rightarrow>
          (let self' = merge_templates_dict self in
           case in_workspace h self' tmp_dir w0 of
             (r, w1) \<Rightarrow> (r, self', release tmp_dir w1)))"

text \<open>
  The steps of one invocation in the order in which the spec's state machine lists them,
  after the creation of the workspace and before its release, each as the event by which
  it is observed: the command that creates the environment, the install command when
  there are requirements, the opening of the input file when arguments are passed, the
  opening of the script and of the string-args file, the command that runs the script,
  and the size query on the output file. It is compared below with the events that
  \<open>execute_callable\<close> leaves in the trace.
\<close>

definition steps :: "operator \<Rightarrow> path \<Rightarrow> event list" where
  "steps self tmp_dir =
     [Subprocess (generate_virtualenv_cmd self tmp_dir)]
     @ (if requirements self = [] then []
        else [Subprocess (generate_pip_install_cmd self tmp_dir)])
     @ (if pass_op_args self then [OpenWrite (path_join tmp_dir ''script.in'')] else [])
     @ [OpenWrite (path_join tmp_dir ''script.py''),
        OpenWrite (path_join tmp_dir ''string_args.txt''),
        Subprocess (generate_python_cmd self tmp_dir (path_join tmp_dir ''script.py'')
                      (path_join tmp_dir ''script.in'') (path_join tmp_dir ''script.out'')
                      (path_join tmp_dir ''string_args.txt'')),
        Stat (path_join tmp_dir ''script.out'')]"

section \<open>The generated script\<close>

text \<open>
  The virtualenv's interpreter runs the text that \<open>generate_python_code\<close> produces.
  Its behaviour is given here statement by statement. A Python 3 interpreter reads a
  text file with universal newlines and \<^verbatim>\<open>str.strip\<close> removes the Unicode white space
  (of which the code points below 256 are listed); Python 2 does neither.
\<close>

definition ascii_space :: "char \<Rightarrow> bool" where
  "ascii_space c = (let n = (of_char c :: nat) in (9 \<le> n \<and> n \<le> 13) \<or> n = 32)"

definition unicode_space :: "char \<Rightarrow> bool" where
  "unicode_space c =
     (let n = (of_char c :: nat) in
      (9 \<le> n \<and> n \<le> 13) \<or> (28 \<le> n \<and> n \<le> 32) \<or> n = 133 \<or> n = 160)"

definition isspace :: "interpreter \<Rightarrow> char \<Rightarrow> bool" where
  "isspace I = (if python3 I then unicode_space else ascii_space)"

definition strip :: "(char \<Rightarrow> bool) \<Rightarrow> string \<Rightarrow> string" where
  "strip sp s = rev (dropWhile sp (rev (dropWhile sp s)))"

text \<open>Universal newlines: \<^verbatim>\<open>'\r\n'\<close> and \<^verbatim>\<open>'\r'\<close> are read as \<^verbatim>\<open>'\n'\<close>.\<close>

fun translate_newlines :: "string \<Rightarrow> string" where
  "translate_newlines [] = []"
| "translate_newlines [c] = (if c = CR then [NL] else [c])"
| "translate_newlines (c # d # cs) =
     (if c = CR then (if d = NL then NL # translate_newlines cs
                      else NL # translate_newlines (d # cs))
      else c # translate_newlines (d # cs))"

text \<open>\<^verbatim>\<open>list(f)\<close>: the lines of the file, each with its newline, the last one perhaps
  without.\<close>

fun readlines :: "string \<Rightarrow> string list" where
  "readlines [] = []"
| "readlines (c # cs) =
     (if c = NL then [NL] # readlines cs
      else (case readlines cs of [] \<Rightarrow> [[c]] | l # ls \<Rightarrow> (c # l) # ls))"

definition read_text :: "interpreter \<Rightarrow> bytes \<Rightarrow> string" where
  "read_text I content = (if python3 I then translate_newlines content else content)"

text \<open>\<^verbatim>\<open>list(map(lambda x: x.strip(), list(f)))\<close>\<close>

definition read_string_args :: "interpreter \<Rightarrow> bytes \<Rightarrow> string list" where
  "read_string_args I content = map (strip (isspace I)) (readlines (read_text I content))"

text \<open>\<^verbatim>\<open>sys.argv[i]\<close>, \<^verbatim>\<open>d[key]\<close> for a string key, and the unpacking of \<^verbatim>\<open>*args\<close> and
  \<^verbatim>\<open>**kwargs\<close> in a call.\<close>

definition argv_get :: "string list \<Rightarrow> nat \<Rightarrow> exn + string" where
  "argv_get argv i = (if i < length argv then Inr (argv ! i) else Inl IndexError)"

fun subscript :: "pyval \<Rightarrow> string \<Rightarrow> exn + pyval" where
  "subscript (PyDict kvs) key =
     (case map_of kvs (PyStr key) of None \<Rightarrow> Inl (KeyError key) | Some v \<Rightarrow> Inr v)"
| "subscript _ key = Inl TypeError"

fun star_args :: "pyval \<Rightarrow> exn + pyval list" where
  "star_args (PyList xs) = Inr xs"
| "star_args (PyStr s) = Inr (map (\<lambda>c. PyStr [c]) s)"
| "star_args (PyDict kvs) = Inr (map fst kvs)"
| "star_args _ = Inl TypeError"

fun keyword :: "pyval \<times> pyval \<Rightarrow> (string \<times> pyval) option" where
  "keyword (PyStr k, v) = Some (k, v)"
| "keyword _ = None"

fun star_kwargs :: "pyval \<Rightarrow> exn + (string \<times> pyval) list" where
  "star_kwargs (PyDict kvs) =
     (if list_all (\<lambda>kv. keyword kv \<noteq> None) kvs then Inr (map (\<lambda>kv. the (keyword kv)) kvs)
      else Inl TypeError)"
| "star_kwargs _ = Inl TypeError"

text \<open>\<^verbatim>\<open>import {pickling_library}\<close>\<close>

definition script_import :: "interpreter \<Rightarrow> operator \<Rightarrow> exn + codec" where
  "script_import I self =
     (if use_dill self
      then (case venv_dill I of None \<Rightarrow> Inl (ImportError ''dill'') | Some c \<Rightarrow> Inr c)
      else Inr (venv_pickle I))"

text \<open>Opening a file for reading and taking its content.\<close>

definition open_read :: "path \<Rightarrow> world \<Rightarrow> (exn + bytes) \<times> world" where
  "open_read p w =
     (case files w p of
        None \<Rightarrow> (Inl (FileNotFoundError p), emit (OpenRead p) w)
      | Some bs \<Rightarrow> (Inr bs, emit (OpenRead p) w))"

definition lift :: "exn + 'a \<Rightarrow> world \<Rightarrow> (exn + 'a) \<times> world" where
  "lift r w = (r, w)"

text \<open>The line \<^verbatim>\<open>{load_args_code}\<close>\<close>

definition script_load_args ::
  "codec \<Rightarrow> operator \<Rightarrow> string list \<Rightarrow> world \<Rightarrow> (exn + pyval) \<times> world" where
  "script_load_args c self argv =
     (if pass_op_args self
      then seq (lift (argv_get argv 1)) (\<lambda>p.
           seq (open_read p) (\<lambda>bs.
           lift (load c bs)))
      else lift (Inr (PyDict [(PyStr ''args'', PyList []), (PyStr ''kwargs'', PyDict [])])))"

text \<open>The two lines that read \<^verbatim>\<open>sys.argv[3]\<close>\<close>

definition script_string_args ::
  "interpreter \<Rightarrow> string list \<Rightarrow> world \<Rightarrow> (exn + string list) \<times> world" where
  "script_string_args I argv =
     seq (lift (argv_get argv 3)) (\<lambda>p.
     seq (open_read p) (\<lambda>content.
     lift (Inr (read_string_args I content))))"

text \<open>The two lines that write \<^verbatim>\<open>sys.argv[2]\<close>\<close>

definition script_dump ::
  "codec \<Rightarrow> string list \<Rightarrow> pyval \<Rightarrow> world \<Rightarrow> (exn + pyval) \<times> world" where
  "script_dump c argv res =
     seq (lift (argv_get argv 2)) (\<lambda>p w.
       let w1 = open_write p w in
       if res \<noteq> PyNone
       then (case dump c res of
               (bs, None) \<Rightarrow> (Inr res, write_bytes p bs w1)
             | (bs, Some e) \<Rightarrow> (Inl e, write_bytes p bs w1))
       else (Inr res, w1))"

text \<open>
  The whole script, run with \<open>argv\<close> as \<^verbatim>\<open>sys.argv\<close>. An exception that ends the
  script is the \<open>Inl\<close> result; otherwise the result is the value of \<^verbatim>\<open>res\<close> at the
  end. The callable may end the script itself: \<^verbatim>\<open>sys.exit(n)\<close> in its body is the
  exception \<open>SystemExit n\<close>, which no statement of the script catches.
\<close>

definition run_script ::
  "interpreter \<Rightarrow> operator \<Rightarrow> string list \<Rightarrow> world \<Rightarrow> (exn + pyval) \<times> world" where
  "run_script I self argv =
     (case python_callable self of
        Function name source body \<Rightarrow>
          seq (lift (script_import I self)) (\<lambda>c.
          seq (script_load_args c self argv) (\<lambda>arg_dict.
          seq (lift (subscript arg_dict ''args'')) (\<lambda>args.
          seq (lift (subscript arg_dict ''kwargs'')) (\<lambda>kwargs.
          seq (script_string_args I argv) (\<lambda>virtualenv_string_args.
          seq (lift (star_args args)) (\<lambda>positional.
          seq (lift (star_kwargs kwargs)) (\<lambda>keywords.
          seq (lift (body positional keywords virtualenv_string_args)) (\<lambda>res.
          script_dump c argv res))))))))
      | _ \<Rightarrow> lift (Inl TypeError))"

text \<open>
  The exit status of the interpreter that ran the script: 0 when the script reaches its
  end, the status given to \<^verbatim>\<open>sys.exit\<close> when the script ends with \<open>SystemExit\<close>, and 1
  when it ends with any other exception. \<^verbatim>\<open>subprocess.check_output\<close> raises
  \<open>CalledProcessError\<close> exactly when the status is not 0.
\<close>

definition exit_status :: "exn + pyval \<Rightarrow> int" where
  "exit_status r = (case r of Inr v \<Rightarrow> 0 | Inl (SystemExit n) \<Rightarrow> n | Inl e \<Rightarrow> 1)"

section \<open>A codec for closed instances\<close>

text \<open>
  The theorems below hold for every codec. Where a closed instance is needed, this one
  is used. It writes a value as a program for pickle's stack machine in the notation of
  protocol 0: \<^verbatim>\<open>N\<close> pushes \<open>None\<close>, \<^verbatim>\<open>I<digits>\n\<close> an integer (\<^verbatim>\<open>I01\n\<close> and
  \<^verbatim>\<open>I00\n\<close> the truth values), \<^verbatim>\<open>V<text>\n\<close> a string, \<^verbatim>\<open>(\<close> a mark, \<^verbatim>\<open>l\<close> and
  \<^verbatim>\<open>d\<close> replace what lies above the topmost mark by a list or a dict, and \<^verbatim>\<open>.\<close>
  stops with the top of the stack as the result. A string that contains a newline is
  refused with \<open>PicklingError\<close>. Reading runs the machine: an unknown operation is an
  \<open>UnpicklingError\<close>, the end of the input before the stop an \<open>EOFError\<close>, and an
  integer argument that is not a number a \<open>ValueError\<close>.
\<close>

definition str_int :: "int \<Rightarrow> string" where
  "str_int i = (if i < 0 then ''-'' @ str_nat (nat (- i)) else str_nat (nat i))"

fun digit_val :: "char \<Rightarrow> nat option" where
  "digit_val c = (let n = (of_char c :: nat) in if 48 \<le> n \<and> n \<le> 57 then Some (n - 48) else None)"

fun parse_nat :: "nat \<Rightarrow> string \<Rightarrow> nat option" where
  "parse_nat acc [] = Some acc"
| "parse_nat acc (c # cs) =
     (case digit_val c of None \<Rightarrow> None | Some d \<Rightarrow> parse_nat (10 * acc + d) cs)"

definition parse_int :: "string \<Rightarrow> int option" where
  "parse_int s =
     (case s of
        [] \<Rightarrow> None
      | c # cs \<Rightarrow>
          if c = CHR ''-'' then (if cs = [] then None else map_option (\<lambda>n. - int n) (parse_nat 0 cs))
          else map_option int (parse_nat 0 s))"

function enc :: "pyval \<Rightarrow> string option"
  and enc_list :: "pyval list \<Rightarrow> string option"
  and enc_items :: "(pyval \<times> pyval) list \<Rightarrow> string option" where
  "enc PyNone = Some ''N''"
| "enc (PyBool b) = Some ((if b then ''I01'' else ''I00'') @ [NL])"
| "enc (PyInt i) = Some (''I'' @ str_int i @ [NL])"
| "enc (PyStr s) = (if NL \<in> set s then None else Some (''V'' @ s @ [NL]))"
| "enc (PyList xs) = map_option (\<lambda>body. ''('' @ body @ ''l'') (enc_list xs)"
| "enc (PyDict kvs) = map_option (\<lambda>body. ''('' @ body @ ''d'') (enc_items kvs)"
| "enc_list [] = Some []"
| "enc_list (x # xs) =
     (case enc x of None \<Rightarrow> None
      | Some a \<Rightarrow> map_option (\<lambda>b. a @ b) (enc_list xs))"
| "enc_items [] = Some []"
| "enc_items ((k, v) # kvs) =
     (case enc k of None \<Rightarrow> None
      | Some a \<Rightarrow>
          (case enc v of None \<Rightarrow> None
           | Some b \<Rightarrow> map_option (\<lambda>c. a @ b @ c) (enc_items kvs)))"
  by pat_completeness auto
termination
  by (relation "measure (case_sum size
                           (case_sum (size_list size) (size_list (size_prod size size))))") auto

definition p0_dump :: "pyval \<Rightarrow> bytes \<times> exn option" where
  "p0_dump v = (case enc v of None \<Rightarrow> ([], Some PicklingError) | Some s \<Rightarrow> (s @ ''.'', None))"

datatype item = Val pyval | Mark

datatype mode = Operation | IntArg string | StrArg string

text \<open>The values above the topmost mark, the oldest first, and the stack below the mark.\<close>

fun pop_mark :: "pyval list \<Rightarrow> item list \<Rightarrow> (pyval list \<times> item list) option" where
  "pop_mark acc [] = None"
| "pop_mark acc (Mark # st) = Some (acc, st)"
| "pop_mark acc (Val v # st) = pop_mark (v # acc) st"

fun pairs :: "'a list \<Rightarrow> ('a \<times> 'a) list option" where
  "pairs [] = Some []"
| "pairs [x] = None"
| "pairs (k # v # xs) = map_option (\<lambda>kvs. (k, v) # kvs) (pairs xs)"

fun vm :: "mode \<Rightarrow> item list \<Rightarrow> bytes \<Rightarrow> exn + pyval" where
  "vm m st [] = Inl EOFError"
| "vm Operation st (c # cs) =
     (if c = CHR ''.'' then (case st of Val v # _ \<Rightarrow> Inr v | _ \<Rightarrow> Inl UnpicklingError)
      else if c = CHR ''N'' then vm Operation (Val PyNone # st) cs
      else if c = CHR ''I'' then vm (IntArg []) st cs
      else if c = CHR ''V'' then vm (StrArg []) st cs
      else if c = CHR ''('' then vm Operation (Mark # st) cs
      else if c = CHR ''l'' then
        (case pop_mark [] st of
           None \<Rightarrow> Inl UnpicklingError
         | Some (vs, st') \<Rightarrow> vm Operation (Val (PyList vs) # st') cs)
      else if c = CHR ''d'' then
        (case pop_mark [] st of
           None \<Rightarrow> Inl UnpicklingError
         | Some (vs, st') \<Rightarrow>
             (case pairs vs of
                None \<Rightarrow> Inl UnpicklingError
              | Some kvs \<Rightarrow> vm Operation (Val (PyDict kvs) # st') cs))
      else Inl UnpicklingError)"
| "vm (IntArg acc) st (c # cs) =
     (if c = NL then
        (if rev acc = ''01'' then vm Operation (Val (PyBool True) # st) cs
         else if rev acc = ''00'' then vm Operation (Val (PyBool False) # st) cs
         else (case parse_int (rev acc) of
                 None \<Rightarrow> Inl (ValueError ''invalid literal for int()'')
               | Some i \<Rightarrow> vm Operation (Val (PyInt i) # st) cs))
      else vm (IntArg (c # acc)) st cs)"
| "vm (StrArg acc) st (c # cs) =
     (if c = NL then vm Operation (Val (PyStr (rev acc)) # st) cs
      else vm (StrArg (c # acc)) st cs)"

definition p0_load :: "bytes \<Rightarrow> exn + pyval" where
  "p0_load bs = vm Operation [] bs"

definition p0 :: codec where
  "p0 = \<lparr> dump = p0_dump, load = p0_load \<rparr>"

section \<open>Examples\<close>

text \<open>
  The functions of the spec's example scenarios, \<^verbatim>\<open>def add(a, b): return a + b\<close> and
  \<^verbatim>\<open>def noop(): pass\<close>, and the call \<^verbatim>\<open>PythonVirtualenvOperator(python_callable=noop)\<close>
  with every other parameter at its default.
\<close>

definition add_fn :: py_object where
  "add_fn = Function ''add'' (''def add(a, b):'' @ [NL] @ ''    return a + b'' @ [NL])
     (\<lambda>args kwargs sargs.
        case (args, kwargs) of
          ([PyInt a, PyInt b], []) \<Rightarrow> Inr (PyInt (a + b))
        | _ \<Rightarrow> Inl TypeError)"

definition noop_fn :: py_object where
  "noop_fn = Function ''noop'' (''def noop():'' @ [NL] @ ''    pass'' @ [NL])
     (\<lambda>args kwargs sargs. if args = [] \<and> kwargs = [] then Inr PyNone else Inl TypeError)"

definition noop_args :: init_args where
  "noop_args = \<lparr> arg_python_callable = noop_fn,
                 arg_requirements = None,
                 arg_python_version = None,
                 arg_use_dill = False,
                 arg_system_site_packages = True,
                 arg_op_args = None,
                 arg_op_kwargs = None,
                 arg_string_args = None,
                 arg_templates_dict = None,
                 arg_templates_exts = None \<rparr>"



text \<open>The operator that this call constructs.\<close>

definition noop_op :: operator where
  "noop_op = \<lparr> python_callable = noop_fn,
               op_args = [],
               op_kwargs = [],
               provide_context = False,
               templates_dict = None,
               template_ext = [],
               requirements = [],
               string_args = [],
               python_version = None,
               use_dill = False,
               system_site_packages = True \<rparr>"

definition empty_world :: world where
  "empty_world = \<lparr> files = Map.empty, log = [], trace = [] \<rparr>"

text \<open>
  A virtualenv interpreter with the codec above, and a machine on which the commands
  print nothing and succeed, the one that starts \<^verbatim>\<open>bin/python\<close> running the script of
  the given operator on the files, provided the script file holds the generated text.
  A script that ends with an exit status other than 0 makes \<^verbatim>\<open>check_output\<close> raise
  \<open>CalledProcessError\<close> with that status as return code.
\<close>

definition venv3 :: interpreter where
  "venv3 = \<lparr> venv_pickle = p0, venv_dill = None, python3 = True \<rparr>"

definition endswith :: "string \<Rightarrow> string \<Rightarrow> bool" where
  "endswith s p = (length p \<le> length s \<and> drop (length s - length p) s = p)"

definition simulated_check_output ::
  "interpreter \<Rightarrow> operator \<Rightarrow> string list \<Rightarrow> (path \<rightharpoonup> bytes) \<Rightarrow> (exn + bytes) \<times> (path \<rightharpoonup> bytes)" where
  "simulated_check_output I self cmd fs =
     (case cmd of
        [] \<Rightarrow> (Inl IndexError, fs)
      | exe # argv \<Rightarrow>
          if endswith exe ''/bin/python'' then
            (if argv \<noteq> [] \<and> (case fs (hd argv) of
                                 None \<Rightarrow> False
                               | Some code \<Rightarrow> generate_python_code self = Inr code)
             then (case run_script I self argv \<lparr> files = fs, log = [], trace = [] \<rparr> of
                     (r, w) \<Rightarrow>
                       if exit_status r = 0 then (Inr [], files w)
                       else (Inl (CalledProcessError (exit_status r) []), files w))
             else (Inl (CalledProcessError 2 []), fs))
          else (Inr [], fs))"

definition simulated_host :: "operator \<Rightarrow> host" where
  "simulated_host self =
     \<lparr> host_pickle = p0, host_dill = p0, tmp_name = ''/tmp/venv0'',
       check_output = simulated_check_output venv3 self \<rparr>"

section \<open>Construction: the checks of the constructor\<close>

text \<open>
  The constructor has no access to files and runs no command: its model is a function of
  its arguments alone, so whatever it raises is raised before any subprocess is started
  and before any directory is created.
\<close>

lemma messages_distinct:
  "not_callable_msg \<noteq> cross_version_msg" "dill_msg \<noteq> cross_version_msg"
  "not_function_msg \<noteq> cross_version_msg" "not_callable_msg \<noteq> dill_msg"
  "not_function_msg \<noteq> dill_msg" "cross_version_msg \<noteq> dill_msg"
  by (simp_all add: not_callable_msg_def cross_version_msg_def dill_msg_def not_function_msg_def)

lemma str_nat_3: "str_nat 3 = ''3''"
  by code_simp

text \<open>
  C4. Constructing the operator with a \<open>python_callable\<close> that is not an instance of
  \<open>FunctionType\<close>, or whose name is the name of a lambda, raises an
  \<open>AirflowException\<close>, whatever the other arguments are.
\<close>

theorem lambda_or_non_function_rejected:
  assumes "\<not> isinstance_FunctionType (arg_python_callable a)
           \<or> fn_name (arg_python_callable a) = lambda_name"
  shows "\<exists>msg. PythonVirtualenvOperator_init major a = Inl (AirflowException msg)"
  using assms
  by (auto simp: PythonVirtualenvOperator_init_def PythonOperator_init_def Let_def
           split: option.splits list.splits)

theorem lambda_or_non_function_rejected_witness:
  "\<not> isinstance_FunctionType CallableObject
   \<and> (\<exists>msg. PythonVirtualenvOperator_init 3 (noop_args \<lparr> arg_python_callable := CallableObject \<rparr>)
              = Inl (AirflowException msg))
   \<and> fn_name (Function ''<lambda>'' ''f = lambda: 0'' (\<lambda>args kwargs sargs. Inr (PyInt 0)))
       = lambda_name
   \<and> (\<exists>msg. PythonVirtualenvOperator_init 3
                (noop_args \<lparr> arg_python_callable :=
                    Function ''<lambda>'' ''f = lambda: 0'' (\<lambda>args kwargs sargs. Inr (PyInt 0)) \<rparr>)
              = Inl (AirflowException msg))"
  using lambda_or_non_function_rejected [of "noop_args \<lparr> arg_python_callable := CallableObject \<rparr>" 3]
        lambda_or_non_function_rejected [of "noop_args \<lparr> arg_python_callable :=
                    Function ''<lambda>'' ''f = lambda: 0'' (\<lambda>args kwargs sargs. Inr (PyInt 0)) \<rparr>" 3]
  by (simp add: lambda_name_def)

text \<open>
  C2. When a \<open>python_version\<close> is given whose first character differs from the major
  version of the constructing interpreter, and \<open>op_args\<close> or \<open>op_kwargs\<close> is not empty,
  the constructor raises an \<open>AirflowException\<close>. When the exception is the one of the
  version check, the same construction with \<open>op_args\<close> and \<open>op_kwargs\<close> empty or absent
  succeeds and keeps the string arguments and the version.
\<close>

theorem cross_version_args_rejected:
  "(arg_python_version a = Some (c # v) \<and> [c] \<noteq> str_nat major
      \<and> length (or_empty (arg_op_args a)) + length (or_empty (arg_op_kwargs a)) > 0
    \<longrightarrow> (\<exists>msg. PythonVirtualenvOperator_init major a = Inl (AirflowException msg)))
   \<and> (PythonVirtualenvOperator_init major a = Inl (AirflowException cross_version_msg)
        \<and> or_empty no_args = [] \<and> or_empty no_kwargs = []
    \<longrightarrow> (\<exists>self. PythonVirtualenvOperator_init major
                     (a \<lparr> arg_op_args := no_args, arg_op_kwargs := no_kwargs \<rparr>) = Inr self
                 \<and> op_args self = [] \<and> op_kwargs self = []
                 \<and> string_args self = or_empty (arg_string_args a)
                 \<and> python_version self = arg_python_version a))"
  by (auto simp: PythonVirtualenvOperator_init_def PythonOperator_init_def Let_def pass_op_args_def
                 messages_distinct
           split: option.splits list.splits if_splits)

lemma init_add_python2:
  "PythonVirtualenvOperator_init 3
        (noop_args \<lparr> arg_python_callable := add_fn, arg_python_version := Some ''2.7'',
           arg_op_args := Some [PyInt 2, PyInt 3], arg_string_args := Some [''alpha'', ''beta''] \<rparr>)
      = Inl (AirflowException cross_version_msg)"
  by (simp add: PythonVirtualenvOperator_init_def PythonOperator_init_def Let_def
          pass_op_args_def noop_args_def add_fn_def lambda_name_def str_nat_3)

theorem cross_version_args_rejected_witness:
  "arg_python_version (noop_args \<lparr> arg_python_callable := add_fn, arg_python_version := Some ''2.7'',
        arg_op_args := Some [PyInt 2, PyInt 3], arg_string_args := Some [''alpha'', ''beta''] \<rparr>)
     = Some (CHR ''2'' # ''.7'')
   \<and> [CHR ''2''] \<noteq> str_nat 3
   \<and> PythonVirtualenvOperator_init 3
        (noop_args \<lparr> arg_python_callable := add_fn, arg_python_version := Some ''2.7'',
           arg_op_args := Some [PyInt 2, PyInt 3], arg_string_args := Some [''alpha'', ''beta''] \<rparr>)
      = Inl (AirflowException cross_version_msg)
   \<and> (\<exists>self. PythonVirtualenvOperator_init 3
        (noop_args \<lparr> arg_python_callable := add_fn, arg_python_version := Some ''2.7'',
           arg_op_args := None, arg_string_args := Some [''alpha'', ''beta''] \<rparr>) = Inr self
        \<and> string_args self = [''alpha'', ''beta''] \<and> python_version self = Some ''2.7'')"
  using cross_version_args_rejected [of "noop_args \<lparr> arg_python_callable := add_fn, arg_python_version := Some ''2.7'',
        arg_op_args := Some [PyInt 2, PyInt 3], arg_string_args := Some [''alpha'', ''beta''] \<rparr>" "CHR ''2''" "''.7''" 3 None None]
     init_add_python2
  by (auto simp: noop_args_def str_nat_3)

text \<open>
  C5, as stated, fails: the constructor also raises an \<open>AirflowException\<close> when the dill
  condition does not hold, here for a lambda with \<open>use_dill\<close> set and the system packages
  inherited, so construction with \<open>use_dill\<close> does not succeed there.
\<close>

theorem dill_check_counterexample:
  "PythonVirtualenvOperator_init 3
     (noop_args \<lparr> arg_python_callable :=
        Function ''<lambda>'' ''f = lambda: 0'' (\<lambda>args kwargs sargs. Inr (PyInt 0)),
        arg_use_dill := True \<rparr>)
     = Inl (AirflowException not_function_msg)
   \<and> arg_system_site_packages (noop_args \<lparr> arg_python_callable :=
        Function ''<lambda>'' ''f = lambda: 0'' (\<lambda>args kwargs sargs. Inr (PyInt 0)),
        arg_use_dill := True \<rparr>)"
  by (simp add: PythonVirtualenvOperator_init_def PythonOperator_init_def Let_def
        noop_args_def lambda_name_def)

text \<open>
  C5, amended. For a callable \<open>python_callable\<close>, the constructor raises the
  \<open>AirflowException\<close> of the dill check if and only if \<open>use_dill\<close> is set,
  \<open>system_site_packages\<close> is not, and no requirement starts with \<^verbatim>\<open>dill\<close> in lower
  case; under that condition construction fails in any case. With \<open>use_dill\<close> set and
  the system packages inherited or such a requirement listed, construction succeeds
  when the callable is a function not named as a lambda and the version check passes:
  no version is given, or the version is not the empty string and either its first
  character is the major version of the constructing interpreter or no arguments are
  given.
\<close>

theorem dill_check:
  "(PythonVirtualenvOperator_init major a = Inl (AirflowException dill_msg)
      \<longleftrightarrow> callable (arg_python_callable a) \<and> arg_use_dill a \<and> \<not> arg_system_site_packages a
          \<and> \<not> any_py (map (\<lambda>x. startswith (lower x) ''dill'') (or_empty (arg_requirements a))))
   \<and> (arg_use_dill a \<and> \<not> arg_system_site_packages a
        \<and> \<not> any_py (map (\<lambda>x. startswith (lower x) ''dill'') (or_empty (arg_requirements a)))
      \<longrightarrow> (\<exists>msg. PythonVirtualenvOperator_init major a = Inl (AirflowException msg)))
   \<and> (arg_use_dill a
        \<and> (arg_system_site_packages a
            \<or> any_py (map (\<lambda>x. startswith (lower x) ''dill'') (or_empty (arg_requirements a))))
        \<and> isinstance_FunctionType (arg_python_callable a)
        \<and> fn_name (arg_python_callable a) \<noteq> lambda_name
        \<and> (case arg_python_version a of
              None \<Rightarrow> True
            | Some v \<Rightarrow>
                v \<noteq> []
                \<and> (take 1 v = str_nat major
                    \<or> length (or_empty (arg_op_args a)) + length (or_empty (arg_op_kwargs a)) = 0))
      \<longrightarrow> (\<exists>self. PythonVirtualenvOperator_init major a = Inr self \<and> use_dill self))"
  by (cases "arg_python_callable a")
     (auto simp: PythonVirtualenvOperator_init_def PythonOperator_init_def Let_def pass_op_args_def
                 messages_distinct
           split: option.splits list.splits if_splits)

lemma startswith_dill_examples:
  "startswith (lower ''Dill==0.2.7'') ''dill''" "\<not> startswith (lower ''numpy'') ''dill''"
  by code_simp+

theorem dill_check_witness:
  "PythonVirtualenvOperator_init 3
     (noop_args \<lparr> arg_use_dill := True, arg_system_site_packages := False,
                  arg_requirements := Some [''numpy''] \<rparr>) = Inl (AirflowException dill_msg)
   \<and> (\<exists>self. PythonVirtualenvOperator_init 3
        (noop_args \<lparr> arg_use_dill := True, arg_system_site_packages := False,
                     arg_requirements := Some [''numpy'', ''Dill==0.2.7''] \<rparr>) = Inr self
        \<and> use_dill self)
   \<and> (\<exists>self. PythonVirtualenvOperator_init 3
        (noop_args \<lparr> arg_python_callable := add_fn, arg_use_dill := True,
                     arg_python_version := Some ''3.6'',
                     arg_op_args := Some [PyInt 2, PyInt 3] \<rparr>) = Inr self
        \<and> use_dill self)"
  using dill_check [of 3 "noop_args \<lparr> arg_use_dill := True, arg_system_site_packages := False,
                  arg_requirements := Some [''numpy''] \<rparr>"]
        dill_check [of 3 "noop_args \<lparr> arg_use_dill := True, arg_system_site_packages := False,
                     arg_requirements := Some [''numpy'', ''Dill==0.2.7''] \<rparr>"]
        dill_check [of 3 "noop_args \<lparr> arg_python_callable := add_fn, arg_use_dill := True,
                     arg_python_version := Some ''3.6'',
                     arg_op_args := Some [PyInt 2, PyInt 3] \<rparr>"]
  by (simp add: noop_args_def noop_fn_def add_fn_def lambda_name_def startswith_dill_examples
        str_nat_3)

section \<open>The string arguments\<close>

lemma readlines_line:
  "NL \<notin> set s \<Longrightarrow> readlines (s @ NL # rest) = (s @ [NL]) # readlines rest"
  by (induction s) auto

lemma readlines_last:
  "NL \<notin> set s \<Longrightarrow> s \<noteq> [] \<Longrightarrow> readlines s = [s]"
proof (induction s)
  case Nil
  then show ?case by simp
next
  case (Cons c s)
  then show ?case by (cases s) auto
qed

lemma translate_newlines_id:
  "CR \<notin> set s \<Longrightarrow> translate_newlines s = s"
  by (induction s rule: translate_newlines.induct) auto

lemma dropWhile_hd:
  "xs \<noteq> [] \<Longrightarrow> \<not> P (hd xs) \<Longrightarrow> dropWhile P xs = xs"
  by (cases xs) auto

lemma strip_no_space:
  assumes "s = [] \<or> (\<not> sp (hd s) \<and> \<not> sp (last s))"
  shows "strip sp s = s"
proof (cases "s = []")
  case True
  then show ?thesis by (simp add: strip_def)
next
  case False
  with assms have h: "\<not> sp (hd s)" and l: "\<not> sp (last s)" by auto
  have "dropWhile sp s = s" using False h by (rule dropWhile_hd)
  moreover have "dropWhile sp (rev s) = rev s"
    using False l by (intro dropWhile_hd) (auto simp: hd_rev)
  ultimately show ?thesis by (simp add: strip_def)
qed

lemma strip_line:
  assumes "s = [] \<or> (\<not> sp (hd s) \<and> \<not> sp (last s))" and "sp NL"
  shows "strip sp (s @ [NL]) = s"
proof (cases "s = []")
  case True
  then show ?thesis using assms(2) by (simp add: strip_def)
next
  case False
  with assms have h: "\<not> sp (hd s)" and l: "\<not> sp (last s)" by auto
  have "dropWhile sp (s @ [NL]) = s @ [NL]"
    using False h by (intro dropWhile_hd) auto
  moreover have "dropWhile sp (rev s) = rev s"
    using False l by (intro dropWhile_hd) (auto simp: hd_rev)
  ultimately show ?thesis using assms(2) by (simp add: strip_def)
qed

lemma isspace_NL: "isspace I NL"
  by (simp add: isspace_def unicode_space_def ascii_space_def NL_def)

lemma read_join:
  assumes "\<forall>s \<in> set ss. NL \<notin> set s \<and> (s = [] \<or> (\<not> sp (hd s) \<and> \<not> sp (last s)))"
    and "ss \<noteq> [] \<longrightarrow> last ss \<noteq> []" and "sp NL"
  shows "map (strip sp) (readlines (join [NL] ss)) = ss"
  using assms
proof (induction ss)
  case Nil
  then show ?case by simp
next
  case (Cons x xs)
  show ?case
  proof (cases xs)
    case Nil
    with Cons.prems show ?thesis by (simp add: readlines_last strip_no_space)
  next
    case (Cons y ys)
    with Cons.prems Cons.IH show ?thesis by (simp add: readlines_line strip_line)
  qed
qed

lemma set_join: "set (join sep ss) \<subseteq> set sep \<union> \<Union> (set ` set ss)"
  by (induction sep ss rule: join.induct) auto

lemma NL_neq_CR: "NL \<noteq> CR"
  by (simp add: NL_def CR_def)

lemma read_text_join:
  assumes "\<forall>s \<in> set ss. python3 I \<longrightarrow> CR \<notin> set s"
  shows "read_text I (join [NL] ss) = join [NL] ss"
proof (cases "python3 I")
  case True
  have "CR \<notin> set (join [NL] ss)"
    using set_join [of "[NL]" ss] assms True NL_neq_CR by auto
  then show ?thesis by (simp add: read_text_def translate_newlines_id)
next
  case False
  then show ?thesis by (simp add: read_text_def)
qed

text \<open>
  C8, amended. For every list of strings that contain no line feed (and, where the
  script runs under Python 3, no carriage return, which universal newlines would read
  as a line end), that have no white space at either end, and of which the last one is
  not empty: \<open>write_string_args\<close> writes the strings joined by newlines, and the
  script, reading the file named by \<^verbatim>\<open>sys.argv[3]\<close> line by line and stripping each
  line, gets the original list. The empty list gives an empty file.
\<close>

theorem string_args_round_trip:
  assumes "\<forall>s \<in> set (string_args self).
             NL \<notin> set s \<and> (python3 I \<longrightarrow> CR \<notin> set s)
             \<and> (s = [] \<or> (\<not> isspace I (hd s) \<and> \<not> isspace I (last s)))"
    and "string_args self \<noteq> [] \<longrightarrow> last (string_args self) \<noteq> []"
  shows "files (write_string_args self p w) p = Some (join [NL] (string_args self))
         \<and> fst (script_string_args I [script, inp, out, p] (write_string_args self p w))
             = Inr (string_args self)
         \<and> files (write_string_args (self \<lparr> string_args := [] \<rparr>) p w) p = Some []"
proof -
  have "read_string_args I (join [NL] (string_args self)) = string_args self"
    unfolding read_string_args_def
    using assms read_text_join [of "string_args self" I]
          read_join [of "string_args self" "isspace I"] isspace_NL [of I]
    by simp
  then show ?thesis
    by (simp add: write_string_args_def write_bytes_def open_write_def emit_def
          script_string_args_def seq_def lift_def argv_get_def open_read_def)
qed

lemma not_space_examples:
  "\<not> isspace venv3 (CHR ''a'')" "\<not> isspace venv3 (CHR ''b'')"
  by code_simp+

theorem string_args_round_trip_witness:
  "fst (script_string_args venv3
          [''/tmp/venv0/script.py'', ''/tmp/venv0/script.in'', ''/tmp/venv0/script.out'',
           ''/tmp/venv0/string_args.txt'']
          (write_string_args (noop_op \<lparr> string_args := [''alpha'', ''beta''] \<rparr>)
             ''/tmp/venv0/string_args.txt'' empty_world))
     = Inr [''alpha'', ''beta'']"
  using string_args_round_trip [of "noop_op \<lparr> string_args := [''alpha'', ''beta''] \<rparr>" venv3
          "''/tmp/venv0/string_args.txt''" empty_world "''/tmp/venv0/script.py''"
          "''/tmp/venv0/script.in''" "''/tmp/venv0/script.out''"]
  by (simp add: not_space_examples NL_def CR_def)

text \<open>
  C8, as stated, fails for a list that ends with the empty string, which contains no
  newline and has no white space at either end: the list with the empty string as its
  only element is written as an empty file and read back as the empty list.
\<close>

theorem string_args_round_trip_counterexample:
  "fst (script_string_args venv3
          [''/tmp/venv0/script.py'', ''/tmp/venv0/script.in'', ''/tmp/venv0/script.out'',
           ''/tmp/venv0/string_args.txt'']
          (write_string_args (noop_op \<lparr> string_args := [''''] \<rparr>)
             ''/tmp/venv0/string_args.txt'' empty_world))
     = Inr []
   \<and> string_args (noop_op \<lparr> string_args := [''''] \<rparr>) \<noteq> []"
  by (simp add: write_string_args_def write_bytes_def open_write_def emit_def
          script_string_args_def seq_def lift_def argv_get_def open_read_def empty_world_def
          read_string_args_def read_text_def venv3_def)

section \<open>The script and its output file\<close>





lemma exit_status_zero:
  "exit_status r = 0 \<longleftrightarrow> (\<exists>res. r = Inr res) \<or> r = Inl (SystemExit 0)"
  by (auto simp: exit_status_def split: sum.splits exn.splits)







section \<open>Reading the result\<close>





section \<open>The input file and the line of the script that loads it\<close>

lemma load_args_line_no_NL: "NL \<notin> set (load_args_line self)"
  by (simp add: load_args_line_def pickling_library_def NL_def)

lemma pickling_library_no_NL: "NL \<notin> set (''import '' @ pickling_library self)"
  by (simp add: pickling_library_def NL_def)

lemma import_sys_no_NL: "NL \<notin> set ''import sys''"
  by (simp add: NL_def)

lemma script_head:
  assumes "python_callable self = Function name source body"
  shows "\<exists>code. generate_python_code self = Inr code
           \<and> take 3 (readlines code)
               = [''import '' @ pickling_library self @ [NL], ''import sys'' @ [NL],
                  load_args_line self @ [NL]]"
proof -
  obtain rest where code: "generate_python_code self
      = Inr ((''import '' @ pickling_library self) @ NL # ''import sys'' @ NL #
             load_args_line self @ NL # rest)"
    using assms by (simp add: generate_python_code_def)
  have "take 3 (readlines ((''import '' @ pickling_library self) @ NL # ''import sys'' @ NL #
             load_args_line self @ NL # rest))
        = [(''import '' @ pickling_library self) @ [NL], ''import sys'' @ [NL],
           load_args_line self @ [NL]]"
    using readlines_line [OF pickling_library_no_NL] readlines_line [OF import_sys_no_NL]
          readlines_line [OF load_args_line_no_NL]
    by simp
  with code show ?thesis by simp
qed

text \<open>
  C1. The input file is written exactly when \<open>len(op_args) + len(op_kwargs) > 0\<close>: then
  \<open>_write_args\<close> opens it once and leaves in it the bytes that the chosen library (dill when
  \<open>use_dill\<close>, pickle otherwise) dumps for \<open>{"args": op_args, "kwargs": op_kwargs}\<close>, the third
  line of the script is the line that loads \<open>sys.argv[1]\<close> with that library, and the script
  opens that path at this step. Otherwise \<open>_write_args\<close> leaves the world as it was, the third
  line of the script sets the dictionary to an empty list and an empty mapping, and the script
  reads no file at this step. For a plain function the script is generated and its first three
  lines are the import of the library, the import of \<open>sys\<close> and that line.
\<close>

theorem args_file_and_load_line:
  "(pass_op_args self \<longrightarrow>
      files (snd (write_args h self p w)) p
        = Some (fst (dump (if use_dill self then host_dill h else host_pickle h)
                       (PyDict [(PyStr ''args'', PyList (op_args self)),
                                (PyStr ''kwargs'',
                                 PyDict (map (\<lambda>(k, v). (PyStr k, v)) (op_kwargs self)))])))
      \<and> trace (snd (write_args h self p w)) = trace w @ [OpenWrite p]
      \<and> load_args_line self
          = ''with open(sys.argv[1], '' @ [CHR 0x22] @ ''rb'' @ [CHR 0x22] @ '') as f: arg_dict = ''
            @ (if use_dill self then ''dill'' else ''pickle'') @ ''.load(f)''
      \<and> script_load_args c self argv w
          = (case argv_get argv 1 of
               Inl e \<Rightarrow> (Inl e, w)
             | Inr inp \<Rightarrow>
                 (case files w inp of
                    None \<Rightarrow> (Inl (FileNotFoundError inp), emit (OpenRead inp) w)
                  | Some bs \<Rightarrow> (load c bs, emit (OpenRead inp) w))))
   \<and> (\<not> pass_op_args self \<longrightarrow>
      write_args h self p w = (Inr (), w)
      \<and> load_args_line self
          = ''arg_dict = {'' @ [CHR 0x22] @ ''args'' @ [CHR 0x22] @ '': [], '' @ [CHR 0x22]
            @ ''kwargs'' @ [CHR 0x22] @ '': {}}''
      \<and> script_load_args c self argv w
          = (Inr (PyDict [(PyStr ''args'', PyList []), (PyStr ''kwargs'', PyDict [])]), w))
   \<and> (isinstance_FunctionType (python_callable self) \<longrightarrow>
      (\<exists>code. generate_python_code self = Inr code
         \<and> take 3 (readlines code)
             = [''import '' @ (if use_dill self then ''dill'' else ''pickle'') @ [NL],
                ''import sys'' @ [NL], load_args_line self @ [NL]]))"
proof -
  have a: "isinstance_FunctionType (python_callable self) \<longrightarrow>
      (\<exists>code. generate_python_code self = Inr code
         \<and> take 3 (readlines code)
             = [''import '' @ (if use_dill self then ''dill'' else ''pickle'') @ [NL],
                ''import sys'' @ [NL], load_args_line self @ [NL]])"
  proof (cases "python_callable self")
    case (Function name source body)
    from script_head [OF this] show ?thesis by (simp add: pickling_library_def)
  qed simp_all
  have b: "pass_op_args self \<longrightarrow>
      files (snd (write_args h self p w)) p
        = Some (fst (dump (if use_dill self then host_dill h else host_pickle h)
                       (PyDict [(PyStr ''args'', PyList (op_args self)),
                                (PyStr ''kwargs'',
                                 PyDict (map (\<lambda>(k, v). (PyStr k, v)) (op_kwargs self)))])))
      \<and> trace (snd (write_args h self p w)) = trace w @ [OpenWrite p]"
    by (auto simp: write_args_def host_codec_def arg_dict_of_def open_write_def write_bytes_def
                   emit_def Let_def split: prod.splits option.splits)
  have c: "\<not> pass_op_args self \<longrightarrow> write_args h self p w = (Inr (), w)"
    by (simp add: write_args_def)
  have d: "script_load_args c self argv w
          = (if pass_op_args self then
              (case argv_get argv 1 of
               Inl e \<Rightarrow> (Inl e, w)
             | Inr inp \<Rightarrow>
                 (case files w inp of
                    None \<Rightarrow> (Inl (FileNotFoundError inp), emit (OpenRead inp) w)
                  | Some bs \<Rightarrow> (load c bs, emit (OpenRead inp) w)))
             else (Inr (PyDict [(PyStr ''args'', PyList []), (PyStr ''kwargs'', PyDict [])]), w))"
    by (auto simp: script_load_args_def seq_def lift_def open_read_def
             split: sum.splits option.splits)
  have e: "load_args_line self
          = (if pass_op_args self then
               ''with open(sys.argv[1], '' @ [CHR 0x22] @ ''rb'' @ [CHR 0x22] @ '') as f: arg_dict = ''
               @ (if use_dill self then ''dill'' else ''pickle'') @ ''.load(f)''
             else ''arg_dict = {'' @ [CHR 0x22] @ ''args'' @ [CHR 0x22] @ '': [], '' @ [CHR 0x22]
               @ ''kwargs'' @ [CHR 0x22] @ '': {}}'')"
    by (simp add: load_args_line_def pickling_library_def)
  from a b c d e show ?thesis by simp
qed

lemma noop_op_facts:
  "\<not> pass_op_args noop_op"
  "pass_op_args (noop_op \<lparr> python_callable := add_fn, op_args := [PyInt 2, PyInt 3] \<rparr>)"
  "\<not> use_dill noop_op"
  "op_args noop_op = []" "op_kwargs noop_op = []"
  "isinstance_FunctionType (python_callable noop_op)"
  "host_pickle (simulated_host self) = p0"
  "tmp_name (simulated_host self) = ''/tmp/venv0''"
  by (simp_all add: pass_op_args_def noop_op_def simulated_host_def noop_fn_def)

theorem args_file_and_load_line_witness:
  "files (snd (write_args (simulated_host noop_op)
                 (noop_op \<lparr> python_callable := add_fn, op_args := [PyInt 2, PyInt 3] \<rparr>)
                 ''/tmp/venv0/script.in'' empty_world)) ''/tmp/venv0/script.in''
     = Some (fst (dump p0 (PyDict [(PyStr ''args'', PyList [PyInt 2, PyInt 3]),
                                   (PyStr ''kwargs'', PyDict [])])))
   \<and> write_args (simulated_host noop_op) noop_op ''/tmp/venv0/script.in'' empty_world
       = (Inr (), empty_world)
   \<and> script_load_args p0 noop_op [''/tmp/venv0/script.py''] empty_world
       = (Inr (PyDict [(PyStr ''args'', PyList []), (PyStr ''kwargs'', PyDict [])]), empty_world)
   \<and> (\<exists>code. generate_python_code noop_op = Inr code
         \<and> take 3 (readlines code)
             = [''import pickle'' @ [NL], ''import sys'' @ [NL], load_args_line noop_op @ [NL]])"
proof -
  note t1 = args_file_and_load_line [where self = "noop_op \<lparr> python_callable := add_fn, op_args := [PyInt 2, PyInt 3] \<rparr>"
          and h = "simulated_host noop_op" and p = "''/tmp/venv0/script.in''" and w = empty_world]
  note t2 = args_file_and_load_line [where self = noop_op
          and h = "simulated_host noop_op" and p = "''/tmp/venv0/script.in''" and w = empty_world
          and c = p0 and argv = "[''/tmp/venv0/script.py'']"]
  from t1 have a: "files (snd (write_args (simulated_host noop_op)
                 (noop_op \<lparr> python_callable := add_fn, op_args := [PyInt 2, PyInt 3] \<rparr>)
                 ''/tmp/venv0/script.in'' empty_world)) ''/tmp/venv0/script.in''
     = Some (fst (dump p0 (PyDict [(PyStr ''args'', PyList [PyInt 2, PyInt 3]),
                                   (PyStr ''kwargs'', PyDict [])])))"
    by (simp add: noop_op_facts)
  from t2 have b: "write_args (simulated_host noop_op) noop_op ''/tmp/venv0/script.in'' empty_world
       = (Inr (), empty_world)"
    by (simp add: noop_op_facts)
  from t2 have c: "script_load_args p0 noop_op [''/tmp/venv0/script.py''] empty_world
       = (Inr (PyDict [(PyStr ''args'', PyList []), (PyStr ''kwargs'', PyDict [])]), empty_world)"
    by (simp add: noop_op_facts)
  from t2 noop_op_facts(6)
  have "\<exists>code. generate_python_code noop_op = Inr code
         \<and> take 3 (readlines code)
             = [''import '' @ (if use_dill noop_op then ''dill'' else ''pickle'') @ [NL],
                ''import sys'' @ [NL], load_args_line noop_op @ [NL]]"
    by blast
  hence d: "\<exists>code. generate_python_code noop_op = Inr code
         \<and> take 3 (readlines code)
             = [''import pickle'' @ [NL], ''import sys'' @ [NL], load_args_line noop_op @ [NL]]"
    by (simp add: noop_op_facts(3))
  from a b c d show ?thesis by blast
qed

section \<open>The three commands and the arguments of the script\<close>

text \<open>
  C7, as stated, fails in the version flag: for \<open>python_version\<close> \<^verbatim>\<open>3.6\<close> the flag is
  \<^verbatim>\<open>--python=python3.6\<close>, not \<^verbatim>\<open>--python=3.6\<close>.
\<close>

theorem virtualenv_flag_counterexample:
  "generate_virtualenv_cmd (noop_op \<lparr> python_version := Some ''3.6'', system_site_packages := False \<rparr>)
     ''/tmp/venv0'' = [''virtualenv'', ''/tmp/venv0'', ''--python=python3.6'']
   \<and> generate_virtualenv_cmd (noop_op \<lparr> python_version := Some ''3.6'', system_site_packages := False \<rparr>)
     ''/tmp/venv0'' \<noteq> [''virtualenv'', ''/tmp/venv0'', ''--python='' @ ''3.6'']"
  by (simp add: generate_virtualenv_cmd_def noop_op_def)

lemma script_lines_no_NL:
  \<open>NL \<notin> set ''args = arg_dict["args"]''\<close>
  \<open>NL \<notin> set ''kwargs = arg_dict["kwargs"]''\<close>
  \<open>NL \<notin> set ''with open(sys.argv[3], 'r') as f:''\<close>
  \<open>NL \<notin> set ''    virtualenv_string_args = list(map(lambda x: x.strip(), list(f)))''\<close>
  by (simp_all add: NL_def)

lemma script_text:
  assumes "python_callable self = Function name source body"
  shows \<open>\<exists>code. generate_python_code self = Inr code
           \<and> take 7 (readlines code)
               = [''import '' @ pickling_library self @ [NL],
                  ''import sys'' @ [NL],
                  load_args_line self @ [NL],
                  ''args = arg_dict["args"]'' @ [NL],
                  ''kwargs = arg_dict["kwargs"]'' @ [NL],
                  ''with open(sys.argv[3], 'r') as f:'' @ [NL],
                  ''    virtualenv_string_args = list(map(lambda x: x.strip(), list(f)))'' @ [NL]]
           \<and> suffix (''with open(sys.argv[2], 'wb') as f:'' @ [NL]
                      @ ''    res is not None and '' @ pickling_library self @ ''.dump(res, f)''
                      @ [NL]) code\<close>
proof -
  let ?tail = \<open>source @ [NL] @ ''res = '' @ name @ ''(*args, **kwargs)'' @ [NL]
               @ ''with open(sys.argv[2], 'wb') as f:'' @ [NL]
               @ ''    res is not None and '' @ pickling_library self @ ''.dump(res, f)''
               @ [NL]\<close>
  let ?code = \<open>(''import '' @ pickling_library self) @ NL # ''import sys'' @ NL #
             load_args_line self @ NL # ''args = arg_dict["args"]'' @ NL #
             ''kwargs = arg_dict["kwargs"]'' @ NL #
             ''with open(sys.argv[3], 'r') as f:'' @ NL #
             ''    virtualenv_string_args = list(map(lambda x: x.strip(), list(f)))'' @ NL #
             ?tail\<close>
  have code: "generate_python_code self = Inr ?code"
    using assms by (simp add: generate_python_code_def)
  have lines: \<open>take 7 (readlines ?code)
               = [''import '' @ pickling_library self @ [NL],
                  ''import sys'' @ [NL],
                  load_args_line self @ [NL],
                  ''args = arg_dict["args"]'' @ [NL],
                  ''kwargs = arg_dict["kwargs"]'' @ [NL],
                  ''with open(sys.argv[3], 'r') as f:'' @ [NL],
                  ''    virtualenv_string_args = list(map(lambda x: x.strip(), list(f)))'' @ [NL]]\<close>
    by (simp only: readlines_line [OF pickling_library_no_NL] readlines_line [OF import_sys_no_NL]
          readlines_line [OF load_args_line_no_NL] readlines_line [OF script_lines_no_NL(1)]
          readlines_line [OF script_lines_no_NL(2)] readlines_line [OF script_lines_no_NL(3)]
          readlines_line [OF script_lines_no_NL(4)]) simp
  have \<open>?code = ((''import '' @ pickling_library self) @ NL # ''import sys'' @ NL #
             load_args_line self @ NL # ''args = arg_dict["args"]'' @ NL #
             ''kwargs = arg_dict["kwargs"]'' @ NL #
             ''with open(sys.argv[3], 'r') as f:'' @ NL #
             ''    virtualenv_string_args = list(map(lambda x: x.strip(), list(f)))'' @ NL #
             source @ [NL] @ ''res = '' @ name @ ''(*args, **kwargs)'' @ [NL])
           @ (''with open(sys.argv[2], 'wb') as f:'' @ [NL]
              @ ''    res is not None and '' @ pickling_library self @ ''.dump(res, f)''
              @ [NL])\<close>
    by simp
  hence suf: \<open>suffix (''with open(sys.argv[2], 'wb') as f:'' @ [NL]
                      @ ''    res is not None and '' @ pickling_library self @ ''.dump(res, f)''
                      @ [NL]) ?code\<close>
    by (rule suffixI)
  from code lines suf show ?thesis by blast
qed

text \<open>
  C7, amended. The command that creates the environment is \<^verbatim>\<open>virtualenv\<close>, the
  directory, \<^verbatim>\<open>--system-site-packages\<close> exactly when \<open>system_site_packages\<close> is set, and
  \<^verbatim>\<open>--python=python<version>\<close> exactly when a version is given; the install command is
  empty for no requirements and otherwise \<^verbatim>\<open><dir>/bin/pip\<close>, \<^verbatim>\<open>install\<close> and the
  requirements in order; the run command is \<^verbatim>\<open><dir>/bin/python\<close>, the script, the input
  file, the output file and the string-args file. Started with that command, the script
  has them as \<^verbatim>\<open>sys.argv[1]\<close>, \<^verbatim>\<open>sys.argv[2]\<close> and \<^verbatim>\<open>sys.argv[3]\<close>: the line that
  loads the arguments reads the input file, the two lines for the string arguments read
  the string-args file, and the last two lines write the output file; and these are the
  positions that the text of the script names, in its third line, in its sixth line and
  in the line before the last.
\<close>

theorem command_shapes:
  \<open>generate_virtualenv_cmd self tmp_dir =
     [''virtualenv'', tmp_dir]
     @ (if system_site_packages self then [''--system-site-packages''] else [])
     @ (case python_version self of None \<Rightarrow> [] | Some v \<Rightarrow> [''--python=python'' @ v])
   \<and> generate_pip_install_cmd self tmp_dir
        = (if requirements self = [] then []
           else (tmp_dir @ ''/bin/pip'') # ''install'' # requirements self)
   \<and> generate_python_cmd self tmp_dir script inp out sargs
        = [tmp_dir @ ''/bin/python'', script, inp, out, sargs]
   \<and> argv_get (tl (generate_python_cmd self tmp_dir script inp out sargs)) 0 = Inr script
   \<and> argv_get (tl (generate_python_cmd self tmp_dir script inp out sargs)) 1 = Inr inp
   \<and> argv_get (tl (generate_python_cmd self tmp_dir script inp out sargs)) 2 = Inr out
   \<and> argv_get (tl (generate_python_cmd self tmp_dir script inp out sargs)) 3 = Inr sargs
   \<and> script_load_args c self (tl (generate_python_cmd self tmp_dir script inp out sargs)) w
        = (if pass_op_args self
           then (case files w inp of
                   None \<Rightarrow> (Inl (FileNotFoundError inp), emit (OpenRead inp) w)
                 | Some bs \<Rightarrow> (load c bs, emit (OpenRead inp) w))
           else (Inr (PyDict [(PyStr ''args'', PyList []), (PyStr ''kwargs'', PyDict [])]), w))
   \<and> script_string_args I (tl (generate_python_cmd self tmp_dir script inp out sargs)) w
        = (case files w sargs of
             None \<Rightarrow> (Inl (FileNotFoundError sargs), emit (OpenRead sargs) w)
           | Some content \<Rightarrow> (Inr (read_string_args I content), emit (OpenRead sargs) w))
   \<and> script_dump c (tl (generate_python_cmd self tmp_dir script inp out sargs)) res w
        = (if res = PyNone then (Inr res, open_write out w)
           else (case dump c res of
                   (bs, None) \<Rightarrow> (Inr res, write_bytes out bs (open_write out w))
                 | (bs, Some e) \<Rightarrow> (Inl e, write_bytes out bs (open_write out w))))
   \<and> load_args_line self
        = (if pass_op_args self
           then ''with open(sys.argv[1], "rb") as f: arg_dict = ''
                @ (if use_dill self then ''dill'' else ''pickle'') @ ''.load(f)''
           else ''arg_dict = {"args": [], "kwargs": {}}'')
   \<and> (isinstance_FunctionType (python_callable self) \<longrightarrow>
        (\<exists>code. generate_python_code self = Inr code
           \<and> take 7 (readlines code)
               = [''import '' @ (if use_dill self then ''dill'' else ''pickle'') @ [NL],
                  ''import sys'' @ [NL],
                  load_args_line self @ [NL],
                  ''args = arg_dict["args"]'' @ [NL],
                  ''kwargs = arg_dict["kwargs"]'' @ [NL],
                  ''with open(sys.argv[3], 'r') as f:'' @ [NL],
                  ''    virtualenv_string_args = list(map(lambda x: x.strip(), list(f)))'' @ [NL]]
           \<and> suffix (''with open(sys.argv[2], 'wb') as f:'' @ [NL]
                      @ ''    res is not None and ''
                      @ (if use_dill self then ''dill'' else ''pickle'') @ ''.dump(res, f)''
                      @ [NL]) code))\<close>
proof -
  have cmds: "generate_virtualenv_cmd self tmp_dir =
     [''virtualenv'', tmp_dir]
     @ (if system_site_packages self then [''--system-site-packages''] else [])
     @ (case python_version self of None \<Rightarrow> [] | Some v \<Rightarrow> [''--python=python'' @ v])
   \<and> generate_pip_install_cmd self tmp_dir
        = (if requirements self = [] then []
           else (tmp_dir @ ''/bin/pip'') # ''install'' # requirements self)
   \<and> generate_python_cmd self tmp_dir script inp out sargs
        = [tmp_dir @ ''/bin/python'', script, inp, out, sargs]
   \<and> argv_get (tl (generate_python_cmd self tmp_dir script inp out sargs)) 0 = Inr script
   \<and> argv_get (tl (generate_python_cmd self tmp_dir script inp out sargs)) 1 = Inr inp
   \<and> argv_get (tl (generate_python_cmd self tmp_dir script inp out sargs)) 2 = Inr out
   \<and> argv_get (tl (generate_python_cmd self tmp_dir script inp out sargs)) 3 = Inr sargs"
    by (simp add: generate_virtualenv_cmd_def generate_pip_install_cmd_def
          generate_python_cmd_def argv_get_def)
  have ld: "script_load_args c self (tl (generate_python_cmd self tmp_dir script inp out sargs)) w
        = (if pass_op_args self
           then (case files w inp of
                   None \<Rightarrow> (Inl (FileNotFoundError inp), emit (OpenRead inp) w)
                 | Some bs \<Rightarrow> (load c bs, emit (OpenRead inp) w))
           else (Inr (PyDict [(PyStr ''args'', PyList []), (PyStr ''kwargs'', PyDict [])]), w))"
    by (simp add: script_load_args_def generate_python_cmd_def seq_def lift_def argv_get_def
          open_read_def split: option.splits)
  have sa: "script_string_args I (tl (generate_python_cmd self tmp_dir script inp out sargs)) w
        = (case files w sargs of
             None \<Rightarrow> (Inl (FileNotFoundError sargs), emit (OpenRead sargs) w)
           | Some content \<Rightarrow> (Inr (read_string_args I content), emit (OpenRead sargs) w))"
    by (simp add: script_string_args_def generate_python_cmd_def seq_def lift_def argv_get_def
          open_read_def split: option.splits)
  have du: "script_dump c (tl (generate_python_cmd self tmp_dir script inp out sargs)) res w
        = (if res = PyNone then (Inr res, open_write out w)
           else (case dump c res of
                   (bs, None) \<Rightarrow> (Inr res, write_bytes out bs (open_write out w))
                 | (bs, Some e) \<Rightarrow> (Inl e, write_bytes out bs (open_write out w))))"
    by (simp add: script_dump_def generate_python_cmd_def seq_def lift_def argv_get_def Let_def)
  have ll: \<open>load_args_line self
        = (if pass_op_args self
           then ''with open(sys.argv[1], "rb") as f: arg_dict = ''
                @ (if use_dill self then ''dill'' else ''pickle'') @ ''.load(f)''
           else ''arg_dict = {"args": [], "kwargs": {}}'')\<close>
    by (simp add: load_args_line_def pickling_library_def)
  have tx: \<open>isinstance_FunctionType (python_callable self) \<longrightarrow>
        (\<exists>code. generate_python_code self = Inr code
           \<and> take 7 (readlines code)
               = [''import '' @ (if use_dill self then ''dill'' else ''pickle'') @ [NL],
                  ''import sys'' @ [NL],
                  load_args_line self @ [NL],
                  ''args = arg_dict["args"]'' @ [NL],
                  ''kwargs = arg_dict["kwargs"]'' @ [NL],
                  ''with open(sys.argv[3], 'r') as f:'' @ [NL],
                  ''    virtualenv_string_args = list(map(lambda x: x.strip(), list(f)))'' @ [NL]]
           \<and> suffix (''with open(sys.argv[2], 'wb') as f:'' @ [NL]
                      @ ''    res is not None and ''
                      @ (if use_dill self then ''dill'' else ''pickle'') @ ''.dump(res, f)''
                      @ [NL]) code)\<close>
  proof (cases "python_callable self")
    case (Function name source body)
    from script_text [OF this] show ?thesis by (simp add: pickling_library_def)
  qed simp_all
  from cmds ld sa du ll tx show ?thesis by blast
qed

theorem command_shapes_witness:
  \<open>generate_virtualenv_cmd (noop_op \<lparr> python_version := Some ''3.6'' \<rparr>) ''/tmp/venv0''
     = [''virtualenv'', ''/tmp/venv0'', ''--system-site-packages'', ''--python=python3.6'']
   \<and> (\<exists>code. generate_python_code noop_op = Inr code
         \<and> take 7 (readlines code)
             = [''import '' @ ''pickle'' @ [NL],
                ''import sys'' @ [NL],
                load_args_line noop_op @ [NL],
                ''args = arg_dict["args"]'' @ [NL],
                ''kwargs = arg_dict["kwargs"]'' @ [NL],
                ''with open(sys.argv[3], 'r') as f:'' @ [NL],
                ''    virtualenv_string_args = list(map(lambda x: x.strip(), list(f)))'' @ [NL]]
         \<and> suffix (''with open(sys.argv[2], 'wb') as f:'' @ [NL]
                    @ ''    res is not None and '' @ ''pickle'' @ ''.dump(res, f)''
                    @ [NL]) code)\<close>
proof -
  have f: "isinstance_FunctionType (python_callable noop_op)"
    by (simp add: noop_op_def noop_fn_def)
  have d: "\<not> use_dill noop_op" by (simp add: noop_op_def)
  from command_shapes [where self = "noop_op \<lparr> python_version := Some ''3.6'' \<rparr>"
         and tmp_dir = "''/tmp/venv0''" and script = "''/tmp/venv0/script.py''"
         and inp = "''/tmp/venv0/script.in''" and out = "''/tmp/venv0/script.out''"
         and sargs = "''/tmp/venv0/string_args.txt''" and c = p0 and w = empty_world
         and I = venv3 and res = PyNone]
  have a: "generate_virtualenv_cmd (noop_op \<lparr> python_version := Some ''3.6'' \<rparr>) ''/tmp/venv0''
     = [''virtualenv'', ''/tmp/venv0'', ''--system-site-packages'', ''--python=python3.6'']"
    by (simp add: noop_op_def)
  from command_shapes [where self = noop_op
         and tmp_dir = "''/tmp/venv0''" and script = "''/tmp/venv0/script.py''"
         and inp = "''/tmp/venv0/script.in''" and out = "''/tmp/venv0/script.out''"
         and sargs = "''/tmp/venv0/string_args.txt''" and c = p0 and w = empty_world
         and I = venv3 and res = PyNone] f
  have \<open>\<exists>code. generate_python_code noop_op = Inr code
           \<and> take 7 (readlines code)
               = [''import '' @ (if use_dill noop_op then ''dill'' else ''pickle'') @ [NL],
                  ''import sys'' @ [NL],
                  load_args_line noop_op @ [NL],
                  ''args = arg_dict["args"]'' @ [NL],
                  ''kwargs = arg_dict["kwargs"]'' @ [NL],
                  ''with open(sys.argv[3], 'r') as f:'' @ [NL],
                  ''    virtualenv_string_args = list(map(lambda x: x.strip(), list(f)))'' @ [NL]]
           \<and> suffix (''with open(sys.argv[2], 'wb') as f:'' @ [NL]
                      @ ''    res is not None and ''
                      @ (if use_dill noop_op then ''dill'' else ''pickle'') @ ''.dump(res, f)''
                      @ [NL]) code\<close>
    by blast
  hence b: \<open>\<exists>code. generate_python_code noop_op = Inr code
         \<and> take 7 (readlines code)
             = [''import '' @ ''pickle'' @ [NL],
                ''import sys'' @ [NL],
                load_args_line noop_op @ [NL],
                ''args = arg_dict["args"]'' @ [NL],
                ''kwargs = arg_dict["kwargs"]'' @ [NL],
                ''with open(sys.argv[3], 'r') as f:'' @ [NL],
                ''    virtualenv_string_args = list(map(lambda x: x.strip(), list(f)))'' @ [NL]]
         \<and> suffix (''with open(sys.argv[2], 'wb') as f:'' @ [NL]
                    @ ''    res is not None and '' @ ''pickle'' @ ''.dump(res, f)''
                    @ [NL]) code\<close>
    by (simp only: d if_False)
  from a b show ?thesis by (rule conjI)
qed

section \<open>The order of the steps of one invocation\<close>

lemma execute_in_subprocess_step:
  "execute_in_subprocess h cmd w = (r, w') \<Longrightarrow>
     trace w' = trace w @ [Subprocess cmd] \<and> fst (execute_in_subprocess h cmd w) = r"
  by (auto simp: execute_in_subprocess_def Let_def emit_def logging_def
           split: prod.splits sum.splits exn.splits if_splits)

lemma write_args_step:
  "write_args h self p w = (r, w') \<Longrightarrow>
     trace w' = trace w @ (if pass_op_args self then [OpenWrite p] else [])
     \<and> fst (write_args h self p w) = r"
  by (auto simp: write_args_def Let_def open_write_def write_bytes_def emit_def
           split: prod.splits option.splits if_splits)

lemma write_script_step:
  "write_script self p w = (r, w') \<Longrightarrow>
     trace w' = trace w @ [OpenWrite p] \<and> fst (write_script self p w) = r"
  by (auto simp: write_script_def Let_def open_write_def write_bytes_def emit_def logging_def
           split: sum.splits)

lemma write_string_args_step:
  "trace (write_string_args self p w) = trace w @ [OpenWrite p]"
  by (simp add: write_string_args_def open_write_def write_bytes_def emit_def)

lemma read_result_step:
  "read_result h self p w = (r, w') \<Longrightarrow>
     (trace w' = trace w @ [Stat p]
      \<or> trace w' = trace w @ [Stat p, OpenRead p] \<and> (\<exists>bs. files w p = Some bs \<and> bs \<noteq> []))
     \<and> fst (read_result h self p w) = r"
  by (auto simp: read_result_def Let_def emit_def logging_def
           split: option.splits sum.splits if_splits)

lemma seq_run:
  assumes "seq m k w = (r, w')"
  obtains (raise) e where "m w = (Inl e, w')" "r = Inl e"
        | (continue) x w1 where "m w = (Inr x, w1)" "k x w1 = (r, w')"
  using assms by (auto simp: seq_def split: prod.splits sum.splits)

lemma pip_cmd_empty:
  "generate_pip_install_cmd self d = [] \<longleftrightarrow> requirements self = []"
  by (simp add: generate_pip_install_cmd_def)

lemma in_workspace_run:
  assumes "in_workspace h s d w0 = (r, w1)"
  shows "\<exists>ys. trace w1 = trace w0 @ ys
           \<and> prefix ys (steps s d @ [OpenRead (path_join d ''script.out'')])
           \<and> (case r of
                 Inr v \<Rightarrow> prefix (steps s d) ys
               | Inl e \<Rightarrow>
                   ys \<noteq> []
                   \<and> ((\<exists>cmd w. last ys = Subprocess cmd
                          \<and> fst (execute_in_subprocess h cmd w) = Inl e)
                      \<or> (\<exists>w. last ys = OpenWrite (path_join d ''script.in'')
                            \<and> fst (write_args h s (path_join d ''script.in'') w) = Inl e)
                      \<or> (\<exists>w. last ys = OpenWrite (path_join d ''script.py'')
                            \<and> fst (write_script s (path_join d ''script.py'') w) = Inl e)
                      \<or> (\<exists>w. (last ys = Stat (path_join d ''script.out'')
                                \<or> last ys = OpenRead (path_join d ''script.out''))
                            \<and> fst (read_result h s (path_join d ''script.out'') w) = Inl e)))"
proof -
  let ?inp = "path_join d ''script.in''"
  let ?out = "path_join d ''script.out''"
  let ?sargs = "path_join d ''string_args.txt''"
  let ?script = "path_join d ''script.py''"
  let ?venv = "generate_virtualenv_cmd s d"
  let ?pip = "generate_pip_install_cmd s d"
  let ?py = "generate_python_cmd s d ?script ?inp ?out ?sargs"
  from assms [unfolded in_workspace_def Let_def] show ?thesis
  proof (cases rule: seq_run)
    case (raise e)
    from execute_in_subprocess_step [OF raise(1)] raise(2) show ?thesis
      by (auto simp: steps_def)
  next
    case c1: (continue x1 w1a)
    note t1 = execute_in_subprocess_step [OF c1(1)]
    from c1(2) show ?thesis
    proof (cases rule: seq_run)
      case (raise e)
      with t1 show ?thesis
        by (auto simp: steps_def pip_cmd_empty dest!: execute_in_subprocess_step
                 split: if_splits)
    next
      case c2: (continue x2 w2)
      have t2: "trace w2 = trace w0 @ Subprocess ?venv
                  # (if requirements s = [] then [] else [Subprocess ?pip])"
        using c2(1) t1
        by (auto simp: pip_cmd_empty dest!: execute_in_subprocess_step split: if_splits)
      from c2(2) show ?thesis
      proof (cases rule: seq_run)
        case (raise e)
        from write_args_step [OF raise(1)] raise(2) t2 show ?thesis
          by (cases "pass_op_args s") (auto simp: steps_def write_args_def)
      next
        case c3: (continue x3 w3)
        have t3: "trace w3 = trace w0 @ Subprocess ?venv
                  # (if requirements s = [] then [] else [Subprocess ?pip])
                  @ (if pass_op_args s then [OpenWrite ?inp] else [])"
          using write_args_step [OF c3(1)] t2 by simp
        from c3(2) show ?thesis
        proof (cases rule: seq_run)
          case (raise e)
          from write_script_step [OF raise(1)] raise(2) t3 show ?thesis
            by (auto simp: steps_def)
        next
          case c4: (continue x4 w4)
          have t4: "trace w4 = trace w0 @ Subprocess ?venv
                  # (if requirements s = [] then [] else [Subprocess ?pip])
                  @ (if pass_op_args s then [OpenWrite ?inp] else [])
                  @ [OpenWrite ?script]"
            using write_script_step [OF c4(1)] t3 by simp
          from c4(2) show ?thesis
          proof (cases rule: seq_run)
            case (raise e)
            thus ?thesis by simp
          next
            case c5: (continue x5 w5)
            have t5: "trace w5 = trace w0 @ Subprocess ?venv
                  # (if requirements s = [] then [] else [Subprocess ?pip])
                  @ (if pass_op_args s then [OpenWrite ?inp] else [])
                  @ [OpenWrite ?script, OpenWrite ?sargs]"
              using c5(1) t4 by (auto simp: write_string_args_step)
            from c5(2) show ?thesis
            proof (cases rule: seq_run)
              case (raise e)
              from execute_in_subprocess_step [OF raise(1)] raise(2) t5 show ?thesis
                by (auto simp: steps_def)
            next
              case c6: (continue x6 w6)
              have t6: "trace w6 = trace w0 @ Subprocess ?venv
                  # (if requirements s = [] then [] else [Subprocess ?pip])
                  @ (if pass_op_args s then [OpenWrite ?inp] else [])
                  @ [OpenWrite ?script, OpenWrite ?sargs, Subprocess ?py]"
                using execute_in_subprocess_step [OF c6(1)] t5 by simp
              from read_result_step [OF c6(2)] t6 show ?thesis
                by (cases r) (auto simp: steps_def)
            qed
          qed
        qed
      qed
    qed
  qed
qed

lemma release_step:
  "trace (release d w) = trace w @ [Rmtree d]"
  "prefix (d @ ''/'') p \<Longrightarrow> files (release d w) p = None"
  by (simp_all add: release_def emit_def)

lemma execute_in_subprocess_effect:
  "fst (execute_in_subprocess h cmd w)
     = (case fst (check_output h cmd (files w)) of Inl e \<Rightarrow> Inl e | Inr output \<Rightarrow> Inr ())"
  "files (snd (execute_in_subprocess h cmd w)) = snd (check_output h cmd (files w))"
  by (auto simp: execute_in_subprocess_def Let_def emit_def logging_def
           split: prod.splits sum.splits exn.splits)

lemma write_files:
  "files (snd (write_args h self p w))
     = (if pass_op_args self
        then (files w)(p \<mapsto> fst (dump (if use_dill self then host_dill h else host_pickle h)
                                    (arg_dict_of self)))
        else files w)"
  "files (snd (write_script self p w))
     = (files w)(p \<mapsto> (case generate_python_code self of Inl e \<Rightarrow> [] | Inr code \<Rightarrow> code))"
  "files (write_string_args self p w) = (files w)(p \<mapsto> join [NL] (string_args self))"
  by (auto simp: write_args_def write_script_def write_string_args_def host_codec_def Let_def
                 open_write_def write_bytes_def emit_def logging_def
           split: prod.splits option.splits sum.splits)

lemma read_result_value:
  "fst (read_result h self p w)
     = (case files w p of
          None \<Rightarrow> Inl (FileNotFoundError p)
        | Some bs \<Rightarrow>
            if bs = [] then Inr PyNone
            else load (if use_dill self then host_dill h else host_pickle h) bs)"
  by (auto simp: read_result_def host_codec_def Let_def split: option.splits sum.splits)

lemma execute_callable_chain:
  assumes s: "s = merge_templates_dict self" and d: "d = tmp_name h"
    and s1: "execute_in_subprocess h (generate_virtualenv_cmd s d) (emit (Mkdtemp d) w) = (r1, w1)"
    and s2: "(if requirements s = [] then (Inr (), w1)
              else execute_in_subprocess h (generate_pip_install_cmd s d) w1) = (r2, w2)"
    and s3: "write_args h s (path_join d ''script.in'') w2 = (r3, w3)"
    and s4: "write_script s (path_join d ''script.py'') w3 = (r4, w4)"
    and s6: "execute_in_subprocess h
               (generate_python_cmd s d (path_join d ''script.py'') (path_join d ''script.in'')
                  (path_join d ''script.out'') (path_join d ''string_args.txt''))
               (write_string_args s (path_join d ''string_args.txt'') w4) = (r6, w6)"
    and s7: "read_result h s (path_join d ''script.out'') w6 = (r7, w7)"
  shows "execute_callable h self w =
      (case r1 of Inl e \<Rightarrow> (Inl e, s, release d w1) | Inr u1 \<Rightarrow>
       case r2 of Inl e \<Rightarrow> (Inl e, s, release d w2) | Inr u2 \<Rightarrow>
       case r3 of Inl e \<Rightarrow> (Inl e, s, release d w3) | Inr u3 \<Rightarrow>
       case r4 of Inl e \<Rightarrow> (Inl e, s, release d w4) | Inr u4 \<Rightarrow>
       case r6 of Inl e \<Rightarrow> (Inl e, s, release d w6) | Inr u6 \<Rightarrow> (r7, s, release d w7))"
proof (cases "requirements s = []")
  case True
  with s2 have "r2 = Inr ()" "w2 = w1" by simp_all
  with True s1 s3 s4 s6 s7 show ?thesis
    unfolding execute_callable_def acquire_def in_workspace_def s [symmetric] d [symmetric]
    by (simp add: seq_def Let_def pip_cmd_empty split: sum.splits)
next
  case False
  with s2 have "execute_in_subprocess h (generate_pip_install_cmd s d) w1 = (r2, w2)" by simp
  with False s1 s3 s4 s6 s7 show ?thesis
    unfolding execute_callable_def acquire_def in_workspace_def s [symmetric] d [symmetric]
    by (simp add: seq_def Let_def pip_cmd_empty split: sum.splits)
qed

text \<open>
  C6. Name the outcome and the world of each step of one call of \<open>execute_callable\<close>,
  each step started in the world that the step before it leaves: the command that
  creates the environment, run in the new workspace; the install command, run exactly
  when \<open>requirements\<close> is not empty, which is when its builder returns a command that is
  not empty; \<open>_write_args\<close>; \<open>_write_script\<close>; \<open>_write_string_args\<close> and then the command
  that runs the script; \<open>_read_result\<close>. Then the call raises the exception of the first
  step that raises, in the world which that step leaves, so that no later step has run,
  and otherwise returns what \<open>_read_result\<close> returns; in both cases the workspace is
  released, and no file remains under it. Each command is handed to \<^verbatim>\<open>check_output\<close>
  with the files as they are, raises what it raises and leaves the files it leaves; the
  three files hold the dump of the arguments, the script and the joined string
  arguments; and the result is read from the output file. The events between the
  creation and the release of the workspace are a prefix of \<open>steps\<close>, perhaps followed by
  the opening of the output file: all of \<open>steps\<close> when a value is returned, and ending
  with the event of the step that raised when an exception is raised.
\<close>

theorem execute_callable_steps:
  assumes s: "s = merge_templates_dict self" and d: "d = tmp_name h"
    and s1: "execute_in_subprocess h (generate_virtualenv_cmd s d) (emit (Mkdtemp d) w) = (r1, w1)"
    and s2: "(if requirements s = [] then (Inr (), w1)
              else execute_in_subprocess h (generate_pip_install_cmd s d) w1) = (r2, w2)"
    and s3: "write_args h s (path_join d ''script.in'') w2 = (r3, w3)"
    and s4: "write_script s (path_join d ''script.py'') w3 = (r4, w4)"
    and s6: "execute_in_subprocess h
               (generate_python_cmd s d (path_join d ''script.py'') (path_join d ''script.in'')
                  (path_join d ''script.out'') (path_join d ''string_args.txt''))
               (write_string_args s (path_join d ''string_args.txt'') w4) = (r6, w6)"
    and s7: "read_result h s (path_join d ''script.out'') w6 = (r7, w7)"
  shows "execute_callable h self w =
      (case r1 of Inl e \<Rightarrow> (Inl e, s, release d w1) | Inr u1 \<Rightarrow>
       case r2 of Inl e \<Rightarrow> (Inl e, s, release d w2) | Inr u2 \<Rightarrow>
       case r3 of Inl e \<Rightarrow> (Inl e, s, release d w3) | Inr u3 \<Rightarrow>
       case r4 of Inl e \<Rightarrow> (Inl e, s, release d w4) | Inr u4 \<Rightarrow>
       case r6 of Inl e \<Rightarrow> (Inl e, s, release d w6) | Inr u6 \<Rightarrow> (r7, s, release d w7))
    \<and> (generate_pip_install_cmd s d = [] \<longleftrightarrow> requirements s = [])
    \<and> r1 = (case fst (check_output h (generate_virtualenv_cmd s d) (files w)) of
               Inl e \<Rightarrow> Inl e | Inr output \<Rightarrow> Inr ())
    \<and> files w1 = snd (check_output h (generate_virtualenv_cmd s d) (files w))
    \<and> (if requirements s = [] then r2 = Inr () \<and> w2 = w1
        else r2 = (case fst (check_output h (generate_pip_install_cmd s d) (files w1)) of
                     Inl e \<Rightarrow> Inl e | Inr output \<Rightarrow> Inr ())
             \<and> files w2 = snd (check_output h (generate_pip_install_cmd s d) (files w1)))
    \<and> files w3
        = (if pass_op_args s
           then (files w2)(path_join d ''script.in''
                  \<mapsto> fst (dump (if use_dill s then host_dill h else host_pickle h)
                             (arg_dict_of s)))
           else files w2)
    \<and> files w4
        = (files w3)(path_join d ''script.py''
             \<mapsto> (case generate_python_code s of Inl e \<Rightarrow> [] | Inr code \<Rightarrow> code))
    \<and> r6 = (case fst (check_output h
                        (generate_python_cmd s d (path_join d ''script.py'')
                           (path_join d ''script.in'') (path_join d ''script.out'')
                           (path_join d ''string_args.txt''))
                        ((files w4)(path_join d ''string_args.txt''
                           \<mapsto> join [NL] (string_args s)))) of
               Inl e \<Rightarrow> Inl e | Inr output \<Rightarrow> Inr ())
    \<and> files w6 = snd (check_output h
                        (generate_python_cmd s d (path_join d ''script.py'')
                           (path_join d ''script.in'') (path_join d ''script.out'')
                           (path_join d ''string_args.txt''))
                        ((files w4)(path_join d ''string_args.txt''
                           \<mapsto> join [NL] (string_args s))))
    \<and> r7 = (case files w6 (path_join d ''script.out'') of
               None \<Rightarrow> Inl (FileNotFoundError (path_join d ''script.out''))
             | Some bs \<Rightarrow>
                 if bs = [] then Inr PyNone
                 else load (if use_dill s then host_dill h else host_pickle h) bs)
    \<and> (\<exists>ys. trace (snd (snd (execute_callable h self w)))
               = trace w @ [Mkdtemp d] @ ys @ [Rmtree d]
           \<and> prefix ys (steps s d @ [OpenRead (path_join d ''script.out'')])
           \<and> (case fst (execute_callable h self w) of
                 Inr v \<Rightarrow> prefix (steps s d) ys
               | Inl e \<Rightarrow>
                   ys \<noteq> []
                   \<and> ((\<exists>cmd w. last ys = Subprocess cmd
                          \<and> fst (execute_in_subprocess h cmd w) = Inl e)
                      \<or> (\<exists>w. last ys = OpenWrite (path_join d ''script.in'')
                            \<and> fst (write_args h s (path_join d ''script.in'') w) = Inl e)
                      \<or> (\<exists>w. last ys = OpenWrite (path_join d ''script.py'')
                            \<and> fst (write_script s (path_join d ''script.py'') w) = Inl e)
                      \<or> (\<exists>w. (last ys = Stat (path_join d ''script.out'')
                                \<or> last ys = OpenRead (path_join d ''script.out''))
                            \<and> fst (read_result h s (path_join d ''script.out'') w) = Inl e))))
    \<and> (\<forall>p. prefix (d @ ''/'') p \<longrightarrow> files (snd (snd (execute_callable h self w))) p = None)"
proof -
  note chain = execute_callable_chain [OF s d s1 s2 s3 s4 s6 s7]
  have pip: "generate_pip_install_cmd s d = [] \<longleftrightarrow> requirements s = []"
    by (rule pip_cmd_empty)
  have p1: "r1 = (case fst (check_output h (generate_virtualenv_cmd s d) (files w)) of
               Inl e \<Rightarrow> Inl e | Inr output \<Rightarrow> Inr ())"
    and f1: "files w1 = snd (check_output h (generate_virtualenv_cmd s d) (files w))"
    using execute_in_subprocess_effect [of h "generate_virtualenv_cmd s d" "emit (Mkdtemp d) w"] s1
    by (simp_all add: emit_def)
  have p2: "if requirements s = [] then r2 = Inr () \<and> w2 = w1
        else r2 = (case fst (check_output h (generate_pip_install_cmd s d) (files w1)) of
                     Inl e \<Rightarrow> Inl e | Inr output \<Rightarrow> Inr ())
             \<and> files w2 = snd (check_output h (generate_pip_install_cmd s d) (files w1))"
    using execute_in_subprocess_effect [of h "generate_pip_install_cmd s d" w1] s2
    by (auto split: if_splits)
  have f3: "files w3
        = (if pass_op_args s
           then (files w2)(path_join d ''script.in''
                  \<mapsto> fst (dump (if use_dill s then host_dill h else host_pickle h)
                             (arg_dict_of s)))
           else files w2)"
    using write_files(1) [of h s "path_join d ''script.in''" w2] s3 by simp
  have f4: "files w4
        = (files w3)(path_join d ''script.py''
             \<mapsto> (case generate_python_code s of Inl e \<Rightarrow> [] | Inr code \<Rightarrow> code))"
    using write_files(2) [of s "path_join d ''script.py''" w3] s4 by simp
  let ?py = "generate_python_cmd s d (path_join d ''script.py'')
                           (path_join d ''script.in'') (path_join d ''script.out'')
                           (path_join d ''string_args.txt'')"
  have p6: "r6 = (case fst (check_output h ?py
                        ((files w4)(path_join d ''string_args.txt''
                           \<mapsto> join [NL] (string_args s)))) of
               Inl e \<Rightarrow> Inl e | Inr output \<Rightarrow> Inr ())"
    and f6: "files w6 = snd (check_output h ?py
                        ((files w4)(path_join d ''string_args.txt''
                           \<mapsto> join [NL] (string_args s))))"
    using execute_in_subprocess_effect
            [of h ?py "write_string_args s (path_join d ''string_args.txt'') w4"] s6
    by (simp_all add: write_files(3))
  have p7: "r7 = (case files w6 (path_join d ''script.out'') of
               None \<Rightarrow> Inl (FileNotFoundError (path_join d ''script.out''))
             | Some bs \<Rightarrow>
                 if bs = [] then Inr PyNone
                 else load (if use_dill s then host_dill h else host_pickle h) bs)"
    using read_result_value [of h s "path_join d ''script.out''" w6] s7 by simp
  define w' where "w' = snd (in_workspace h s d (emit (Mkdtemp d) w))"
  have ex: "execute_callable h self w
              = (fst (in_workspace h s d (emit (Mkdtemp d) w)), s, release d w')"
    unfolding w'_def execute_callable_def acquire_def s [symmetric] d [symmetric]
    by (simp add: Let_def split: prod.splits)
  have run: "in_workspace h s d (emit (Mkdtemp d) w) = (fst (execute_callable h self w), w')"
    by (simp add: ex w'_def)
  have w': "snd (snd (execute_callable h self w)) = release d w'"
    by (simp add: ex)
  from in_workspace_run [OF run] w' have tr:
    "\<exists>ys. trace (snd (snd (execute_callable h self w)))
               = trace w @ [Mkdtemp d] @ ys @ [Rmtree d]
           \<and> prefix ys (steps s d @ [OpenRead (path_join d ''script.out'')])
           \<and> (case fst (execute_callable h self w) of
                 Inr v \<Rightarrow> prefix (steps s d) ys
               | Inl e \<Rightarrow>
                   ys \<noteq> []
                   \<and> ((\<exists>cmd w. last ys = Subprocess cmd
                          \<and> fst (execute_in_subprocess h cmd w) = Inl e)
                      \<or> (\<exists>w. last ys = OpenWrite (path_join d ''script.in'')
                            \<and> fst (write_args h s (path_join d ''script.in'') w) = Inl e)
                      \<or> (\<exists>w. last ys = OpenWrite (path_join d ''script.py'')
                            \<and> fst (write_script s (path_join d ''script.py'') w) = Inl e)
                      \<or> (\<exists>w. (last ys = Stat (path_join d ''script.out'')
                                \<or> last ys = OpenRead (path_join d ''script.out''))
                            \<and> fst (read_result h s (path_join d ''script.out'') w) = Inl e)))"
    by (auto simp: release_step emit_def)
  have rel: "\<forall>p. prefix (d @ ''/'') p \<longrightarrow> files (snd (snd (execute_callable h self w))) p = None"
    using w' by (simp add: release_step)
  from chain pip p1 f1 p2 f3 f4 p6 f6 p7 tr rel show ?thesis
    by (intro conjI)
qed

lemma example_runs:
  "fst (execute_callable (simulated_host noop_op) noop_op empty_world) = Inr PyNone"
  "fst (execute_callable (simulated_host (noop_op \<lparr> python_callable := add_fn \<rparr>))
          (noop_op \<lparr> python_callable := add_fn \<rparr>) empty_world)
     = Inl (CalledProcessError 1 [])"
  by code_simp+

lemma merge_examples:
  "merge_templates_dict noop_op = noop_op"
  "merge_templates_dict (noop_op \<lparr> python_callable := f \<rparr>) = noop_op \<lparr> python_callable := f \<rparr>"
  by (simp_all add: merge_templates_dict_def noop_op_def)

lemma simulated_tmp_name: "tmp_name (simulated_host self) = ''/tmp/venv0''"
  by (simp add: simulated_host_def)

lemma trace_empty_world: "trace empty_world = []"
  by (simp add: empty_world_def)

lemma execute_callable_operator:
  "fst (snd (execute_callable h self w)) = merge_templates_dict self"
  by (simp add: execute_callable_def acquire_def Let_def split: prod.splits)

theorem execute_callable_steps_witness:
  "fst (execute_callable (simulated_host noop_op) noop_op empty_world) = Inr PyNone
   \<and> (\<exists>ys. trace (snd (snd (execute_callable (simulated_host noop_op) noop_op empty_world)))
           = [Mkdtemp ''/tmp/venv0''] @ ys @ [Rmtree ''/tmp/venv0'']
         \<and> prefix ys (steps noop_op ''/tmp/venv0'' @ [OpenRead ''/tmp/venv0/script.out''])
         \<and> prefix (steps noop_op ''/tmp/venv0'') ys)
   \<and> files (snd (snd (execute_callable (simulated_host noop_op) noop_op empty_world)))
        ''/tmp/venv0/script.out'' = None
   \<and> fst (execute_callable (simulated_host (noop_op \<lparr> python_callable := add_fn \<rparr>))
          (noop_op \<lparr> python_callable := add_fn \<rparr>) empty_world)
       = Inl (CalledProcessError 1 [])
   \<and> (\<exists>ys. trace (snd (snd (execute_callable
                 (simulated_host (noop_op \<lparr> python_callable := add_fn \<rparr>))
                 (noop_op \<lparr> python_callable := add_fn \<rparr>) empty_world)))
           = [Mkdtemp ''/tmp/venv0''] @ ys @ [Rmtree ''/tmp/venv0'']
         \<and> prefix ys (steps (noop_op \<lparr> python_callable := add_fn \<rparr>) ''/tmp/venv0''
                        @ [OpenRead ''/tmp/venv0/script.out''])
         \<and> ys \<noteq> [])"
proof -
  let ?d = "''/tmp/venv0''"
  let ?H = "simulated_host noop_op"
  let ?add = "noop_op \<lparr> python_callable := add_fn \<rparr>"
  let ?G = "simulated_host ?add"
  note t = execute_callable_steps [where self = noop_op and h = ?H and w = empty_world
      and s = noop_op and d = ?d,
      OF merge_examples(1) [symmetric] simulated_tmp_name [symmetric]
         prod.collapse [symmetric] prod.collapse [symmetric] prod.collapse [symmetric]
         prod.collapse [symmetric] prod.collapse [symmetric] prod.collapse [symmetric]]
  note u = execute_callable_steps [where self = ?add and h = ?G and w = empty_world
      and s = ?add and d = ?d,
      OF merge_examples(2) [symmetric] simulated_tmp_name [symmetric]
         prod.collapse [symmetric] prod.collapse [symmetric] prod.collapse [symmetric]
         prod.collapse [symmetric] prod.collapse [symmetric] prod.collapse [symmetric]]
  from t have "\<exists>ys. trace (snd (snd (execute_callable ?H noop_op empty_world)))
               = trace empty_world @ [Mkdtemp ?d] @ ys @ [Rmtree ?d]
           \<and> prefix ys (steps noop_op ?d @ [OpenRead (path_join ?d ''script.out'')])
           \<and> (case fst (execute_callable ?H noop_op empty_world) of
                 Inr v \<Rightarrow> prefix (steps noop_op ?d) ys
               | Inl e \<Rightarrow> ys \<noteq> []
                   \<and> ((\<exists>cmd w. last ys = Subprocess cmd
                          \<and> fst (execute_in_subprocess ?H cmd w) = Inl e)
                      \<or> (\<exists>w. last ys = OpenWrite (path_join ?d ''script.in'')
                            \<and> fst (write_args ?H noop_op (path_join ?d ''script.in'') w) = Inl e)
                      \<or> (\<exists>w. last ys = OpenWrite (path_join ?d ''script.py'')
                            \<and> fst (write_script noop_op (path_join ?d ''script.py'') w) = Inl e)
                      \<or> (\<exists>w. (last ys = Stat (path_join ?d ''script.out'')
                                \<or> last ys = OpenRead (path_join ?d ''script.out''))
                            \<and> fst (read_result ?H noop_op (path_join ?d ''script.out'') w)
                                = Inl e)))"
    by blast
  hence a: "\<exists>ys. trace (snd (snd (execute_callable ?H noop_op empty_world)))
           = [Mkdtemp ?d] @ ys @ [Rmtree ?d]
         \<and> prefix ys (steps noop_op ?d @ [OpenRead ''/tmp/venv0/script.out''])
         \<and> prefix (steps noop_op ?d) ys"
    by (simp add: example_runs(1) trace_empty_world path_join_def)
  from t have "\<forall>p. prefix (?d @ ''/'') p
                 \<longrightarrow> files (snd (snd (execute_callable ?H noop_op empty_world))) p = None"
    by blast
  hence b: "files (snd (snd (execute_callable ?H noop_op empty_world)))
              ''/tmp/venv0/script.out'' = None"
    by simp
  from u have "\<exists>ys. trace (snd (snd (execute_callable ?G ?add empty_world)))
               = trace empty_world @ [Mkdtemp ?d] @ ys @ [Rmtree ?d]
           \<and> prefix ys (steps ?add ?d @ [OpenRead (path_join ?d ''script.out'')])
           \<and> (case fst (execute_callable ?G ?add empty_world) of
                 Inr v \<Rightarrow> prefix (steps ?add ?d) ys
               | Inl e \<Rightarrow> ys \<noteq> []
                   \<and> ((\<exists>cmd w. last ys = Subprocess cmd
                          \<and> fst (execute_in_subprocess ?G cmd w) = Inl e)
                      \<or> (\<exists>w. last ys = OpenWrite (path_join ?d ''script.in'')
                            \<and> fst (write_args ?G ?add (path_join ?d ''script.in'') w) = Inl e)
                      \<or> (\<exists>w. last ys = OpenWrite (path_join ?d ''script.py'')
                            \<and> fst (write_script ?add (path_join ?d ''script.py'') w) = Inl e)
                      \<or> (\<exists>w. (last ys = Stat (path_join ?d ''script.out'')
                                \<or> last ys = OpenRead (path_join ?d ''script.out''))
                            \<and> fst (read_result ?G ?add (path_join ?d ''script.out'') w)
                                = Inl e)))"
    by blast
  hence c: "\<exists>ys. trace (snd (snd (execute_callable ?G ?add empty_world)))
           = [Mkdtemp ?d] @ ys @ [Rmtree ?d]
         \<and> prefix ys (steps ?add ?d @ [OpenRead ''/tmp/venv0/script.out''])
         \<and> ys \<noteq> []"
    by (auto simp: example_runs(2) trace_empty_world path_join_def)
  from example_runs a b c show ?thesis by blast
qed

section \<open>The templates dict and the check of the constructor\<close>

lemma in_workspace_input:
  assumes run: "in_workspace h s d w0 = (r, w1)" and pass: "pass_op_args s"
  shows "OpenWrite (path_join d ''script.in'') \<in> set (trace w1)
         \<or> (\<exists>e cmd w. r = Inl e
               \<and> (cmd = generate_virtualenv_cmd s d
                  \<or> requirements s \<noteq> [] \<and> cmd = generate_pip_install_cmd s d)
               \<and> fst (execute_in_subprocess h cmd w) = Inl e)"
proof -
  let ?inp = "OpenWrite (path_join d ''script.in'')"
  let ?A = "[Subprocess (generate_virtualenv_cmd s d)]
     @ (if requirements s = [] then []
        else [Subprocess (generate_pip_install_cmd s d)])"
  from in_workspace_run [OF run] obtain ys where tr: "trace w1 = trace w0 @ ys"
    and pre: "prefix ys (steps s d @ [OpenRead (path_join d ''script.out'')])"
    and res: "case r of
                 Inr v \<Rightarrow> prefix (steps s d) ys
               | Inl e \<Rightarrow>
                   ys \<noteq> []
                   \<and> ((\<exists>cmd w. last ys = Subprocess cmd
                          \<and> fst (execute_in_subprocess h cmd w) = Inl e)
                      \<or> (\<exists>w. last ys = OpenWrite (path_join d ''script.in'')
                            \<and> fst (write_args h s (path_join d ''script.in'') w) = Inl e)
                      \<or> (\<exists>w. last ys = OpenWrite (path_join d ''script.py'')
                            \<and> fst (write_script s (path_join d ''script.py'') w) = Inl e)
                      \<or> (\<exists>w. (last ys = Stat (path_join d ''script.out'')
                                \<or> last ys = OpenRead (path_join d ''script.out''))
                            \<and> fst (read_result h s (path_join d ''script.out'') w) = Inl e))"
    by blast
  obtain rest where st: "steps s d = ?A @ ?inp # rest"
    using pass by (simp add: steps_def)
  show ?thesis
  proof (cases "?inp \<in> set ys")
    case True
    with tr show ?thesis by simp
  next
    case False
    from pre st have "prefix ys (?A @ ?inp # (rest @ [OpenRead (path_join d ''script.out'')]))"
      by simp
    hence "prefix ys ?A \<or> (\<exists>us. ys = ?A @ us \<and> prefix us (?inp # (rest @ [OpenRead (path_join d ''script.out'')])))"
      by (simp only: prefix_append)
    with False have pA: "prefix ys ?A"
      by (auto simp: prefix_Cons)
    have notfull: "\<not> prefix (steps s d) ys"
    proof
      assume "prefix (steps s d) ys"
      with st have "?inp \<in> set ys" by (auto simp: prefix_def)
      with False show False ..
    qed
    with res obtain e where r: "r = Inl e" and ne: "ys \<noteq> []"
      and c: "(\<exists>cmd w. last ys = Subprocess cmd
                          \<and> fst (execute_in_subprocess h cmd w) = Inl e)
                      \<or> (\<exists>w. last ys = OpenWrite (path_join d ''script.in'')
                            \<and> fst (write_args h s (path_join d ''script.in'') w) = Inl e)
                      \<or> (\<exists>w. last ys = OpenWrite (path_join d ''script.py'')
                            \<and> fst (write_script s (path_join d ''script.py'') w) = Inl e)
                      \<or> (\<exists>w. (last ys = Stat (path_join d ''script.out'')
                                \<or> last ys = OpenRead (path_join d ''script.out''))
                            \<and> fst (read_result h s (path_join d ''script.out'') w) = Inl e)"
      by (cases r) auto
    from ne have "last ys \<in> set ys" by simp
    moreover from pA have "set ys \<subseteq> set ?A" by (rule set_mono_prefix)
    ultimately have "last ys \<in> set ?A" by blast
    hence l: "last ys = Subprocess (generate_virtualenv_cmd s d)
            \<or> requirements s \<noteq> [] \<and> last ys = Subprocess (generate_pip_install_cmd s d)"
      by (auto split: if_splits)
    with c obtain cmd w where cw: "last ys = Subprocess cmd"
      "fst (execute_in_subprocess h cmd w) = Inl e"
      by auto
    with l have "cmd = generate_virtualenv_cmd s d
                 \<or> requirements s \<noteq> [] \<and> cmd = generate_pip_install_cmd s d"
      by auto
    with cw(2) r show ?thesis by blast
  qed
qed

text \<open>
  C9. An operator constructed with no \<open>op_args\<close> and no \<open>op_kwargs\<close> passes the check of
  the constructor whatever its \<open>python_version\<close> is. When its \<open>templates_dict\<close> is not
  empty, \<open>execute_callable\<close> stores it in \<open>op_kwargs\<close> before anything is written, so
  that \<open>_pass_op_args\<close> holds from then on: \<open>_write_args\<close> writes the dump of the
  arguments with the templates dict among the keyword arguments, the third line of the
  generated script loads the file named by \<^verbatim>\<open>sys.argv[1]\<close>, and the input file is opened
  for writing in every run in which the commands that build the environment do not fail.
\<close>

theorem templates_dict_crosses_boundary:
  assumes init: "PythonVirtualenvOperator_init major a = Inr self"
    and noargs: "or_empty (arg_op_args a) = []" "or_empty (arg_op_kwargs a) = []"
    and td: "arg_templates_dict a = Some td" "td \<noteq> []"
    and run: "execute_callable h self w = (r, self', w')"
  shows "python_version self = arg_python_version a
       \<and> \<not> pass_op_args self
       \<and> op_args self' = [] \<and> op_kwargs self' = [(''templates_dict'', PyDict td)]
       \<and> pass_op_args self'
       \<and> (\<forall>p w1. files (snd (write_args h self' p w1)) p
             = Some (fst (dump (if use_dill self' then host_dill h else host_pickle h)
                       (PyDict [(PyStr ''args'', PyList []),
                                (PyStr ''kwargs'',
                                 PyDict [(PyStr ''templates_dict'', PyDict td)])]))))
       \<and> (\<exists>code. generate_python_code self' = Inr code
             \<and> take 3 (readlines code)
                 = [''import '' @ (if use_dill self' then ''dill'' else ''pickle'') @ [NL],
                    ''import sys'' @ [NL],
                    ''with open(sys.argv[1], '' @ [CHR 0x22] @ ''rb'' @ [CHR 0x22]
                    @ '') as f: arg_dict = ''
                    @ (if use_dill self' then ''dill'' else ''pickle'') @ ''.load(f)'' @ [NL]])
       \<and> (OpenWrite (path_join (tmp_name h) ''script.in'') \<in> set (trace w')
          \<or> (\<exists>e cmd w. r = Inl e
               \<and> (cmd = generate_virtualenv_cmd self' (tmp_name h)
                  \<or> requirements self' \<noteq> []
                     \<and> cmd = generate_pip_install_cmd self' (tmp_name h))
               \<and> fst (execute_in_subprocess h cmd w) = Inl e))"
proof -
  from init noargs td have self: "op_args self = []" "op_kwargs self = []"
    "templates_dict self = Some td" "python_version self = arg_python_version a"
    "isinstance_FunctionType (python_callable self)"
    by (auto simp: PythonVirtualenvOperator_init_def PythonOperator_init_def Let_def
             split: if_splits option.splits list.splits)
  from run obtain w1 where s: "self' = merge_templates_dict self"
    and inw: "in_workspace h self' (tmp_name h) (emit (Mkdtemp (tmp_name h)) w) = (r, w1)"
    and w': "w' = release (tmp_name h) w1"
    by (auto simp: execute_callable_def acquire_def Let_def split: prod.splits)
  from s self td(2) have m: "op_args self' = []" "op_kwargs self' = [(''templates_dict'', PyDict td)]"
    "python_callable self' = python_callable self"
    by (simp_all add: merge_templates_dict_def)
  hence pass: "pass_op_args self'" by (simp add: pass_op_args_def)
  have a: "\<forall>p w1. files (snd (write_args h self' p w1)) p
             = Some (fst (dump (if use_dill self' then host_dill h else host_pickle h)
                       (PyDict [(PyStr ''args'', PyList []),
                                (PyStr ''kwargs'',
                                 PyDict [(PyStr ''templates_dict'', PyDict td)])])))"
    using pass m
    by (auto simp: write_args_def host_codec_def arg_dict_of_def open_write_def write_bytes_def
                   emit_def Let_def split: prod.splits option.splits)
  obtain name source body where f: "python_callable self' = Function name source body"
    using self(5) m(3) by (cases "python_callable self") auto
  from script_head [OF f] pass have b: "\<exists>code. generate_python_code self' = Inr code
             \<and> take 3 (readlines code)
                 = [''import '' @ (if use_dill self' then ''dill'' else ''pickle'') @ [NL],
                    ''import sys'' @ [NL],
                    ''with open(sys.argv[1], '' @ [CHR 0x22] @ ''rb'' @ [CHR 0x22]
                    @ '') as f: arg_dict = ''
                    @ (if use_dill self' then ''dill'' else ''pickle'') @ ''.load(f)'' @ [NL]]"
    by (simp add: pickling_library_def load_args_line_def)
  from in_workspace_input [OF inw pass] w'
  have c: "OpenWrite (path_join (tmp_name h) ''script.in'') \<in> set (trace w')
          \<or> (\<exists>e cmd w. r = Inl e
               \<and> (cmd = generate_virtualenv_cmd self' (tmp_name h)
                  \<or> requirements self' \<noteq> []
                     \<and> cmd = generate_pip_install_cmd self' (tmp_name h))
               \<and> fst (execute_in_subprocess h cmd w) = Inl e)"
    by (auto simp: release_step)
  from self m pass a b c show ?thesis
    by (simp add: pass_op_args_def)
qed

lemma init_templates_python2:
  "PythonVirtualenvOperator_init 3
     (noop_args \<lparr> arg_python_version := Some ''2.7'',
                  arg_templates_dict := Some [(PyStr ''ds'', PyStr ''2018-01-01'')] \<rparr>)
   = Inr (noop_op \<lparr> templates_dict := Some [(PyStr ''ds'', PyStr ''2018-01-01'')],
                    python_version := Some ''2.7'' \<rparr>)"
  by (simp add: PythonVirtualenvOperator_init_def PythonOperator_init_def Let_def
        pass_op_args_def noop_args_def noop_op_def noop_fn_def lambda_name_def str_nat_3)

lemma simulated_virtualenv_succeeds:
  "fst (execute_in_subprocess (simulated_host s) (generate_virtualenv_cmd self ''/tmp/venv0'') w)
     = Inr ()"
  by (simp add: execute_in_subprocess_def simulated_host_def simulated_check_output_def
        generate_virtualenv_cmd_def endswith_def Let_def split: prod.splits)

theorem templates_dict_crosses_boundary_witness:
  "PythonVirtualenvOperator_init 3
     (noop_args \<lparr> arg_python_version := Some ''2.7'',
                  arg_templates_dict := Some [(PyStr ''ds'', PyStr ''2018-01-01'')] \<rparr>)
     = Inr (noop_op \<lparr> templates_dict := Some [(PyStr ''ds'', PyStr ''2018-01-01'')],
                      python_version := Some ''2.7'' \<rparr>)
   \<and> python_version (noop_op \<lparr> templates_dict := Some [(PyStr ''ds'', PyStr ''2018-01-01'')],
                                python_version := Some ''2.7'' \<rparr>) = Some ''2.7''
   \<and> \<not> pass_op_args (noop_op \<lparr> templates_dict := Some [(PyStr ''ds'', PyStr ''2018-01-01'')],
                                python_version := Some ''2.7'' \<rparr>)
   \<and> op_kwargs (fst (snd (execute_callable (simulated_host noop_op)
          (noop_op \<lparr> templates_dict := Some [(PyStr ''ds'', PyStr ''2018-01-01'')],
                     python_version := Some ''2.7'' \<rparr>) empty_world)))
       = [(''templates_dict'', PyDict [(PyStr ''ds'', PyStr ''2018-01-01'')])]
   \<and> pass_op_args (fst (snd (execute_callable (simulated_host noop_op)
          (noop_op \<lparr> templates_dict := Some [(PyStr ''ds'', PyStr ''2018-01-01'')],
                     python_version := Some ''2.7'' \<rparr>) empty_world)))
   \<and> OpenWrite ''/tmp/venv0/script.in''
       \<in> set (trace (snd (snd (execute_callable (simulated_host noop_op)
          (noop_op \<lparr> templates_dict := Some [(PyStr ''ds'', PyStr ''2018-01-01'')],
                     python_version := Some ''2.7'' \<rparr>) empty_world))))"
proof -
  let ?A = "noop_args \<lparr> arg_python_version := Some ''2.7'',
                  arg_templates_dict := Some [(PyStr ''ds'', PyStr ''2018-01-01'')] \<rparr>"
  let ?S = "noop_op \<lparr> templates_dict := Some [(PyStr ''ds'', PyStr ''2018-01-01'')],
                      python_version := Some ''2.7'' \<rparr>"
  let ?H = "simulated_host noop_op"
  let ?r = "fst (execute_callable ?H ?S empty_world)"
  let ?S' = "fst (snd (execute_callable ?H ?S empty_world))"
  let ?w' = "snd (snd (execute_callable ?H ?S empty_world))"
  have run: "execute_callable ?H ?S empty_world = (?r, ?S', ?w')" by simp
  have n: "or_empty (arg_op_args ?A) = []" "or_empty (arg_op_kwargs ?A) = []"
    "arg_templates_dict ?A = Some [(PyStr ''ds'', PyStr ''2018-01-01'')]"
    "[(PyStr ''ds'', PyStr ''2018-01-01'')] \<noteq> []"
    by (simp_all add: noop_args_def)
  note t = templates_dict_crosses_boundary [OF init_templates_python2 n run]
  have req: "requirements ?S' = []"
    by (simp add: execute_callable_operator merge_templates_dict_def noop_op_def)
  from t have a: "python_version ?S = Some ''2.7''" by (simp add: noop_args_def)
  from t have b: "\<not> pass_op_args ?S" by simp
  from t have c: "op_kwargs ?S' = [(''templates_dict'', PyDict [(PyStr ''ds'', PyStr ''2018-01-01'')])]"
    by simp
  from t have d: "pass_op_args ?S'" by simp
  from t have "OpenWrite (path_join (tmp_name ?H) ''script.in'') \<in> set (trace ?w')
          \<or> (\<exists>e cmd w. ?r = Inl e
               \<and> (cmd = generate_virtualenv_cmd ?S' (tmp_name ?H)
                  \<or> requirements ?S' \<noteq> []
                     \<and> cmd = generate_pip_install_cmd ?S' (tmp_name ?H))
               \<and> fst (execute_in_subprocess ?H cmd w) = Inl e)"
    by blast
  hence e: "OpenWrite ''/tmp/venv0/script.in'' \<in> set (trace ?w')"
    using req simulated_virtualenv_succeeds [of noop_op ?S']
    by (auto simp: noop_op_facts path_join_def)
  from init_templates_python2 a b c d e show ?thesis by blast
qed

end
